theory Spec2Isabelle
  imports Complex_Main
begin

section \<open>JavaScript values used by the two delivery forms\<close>

text \<open>
  A number is a double: a finite value, kept as the rational it denotes, one of the two
  infinities, or \<open>NaN\<close>. The functions that produce numbers from text round to the
  nearest double (\<open>doble\<close> below). A string is the list of the bytes of its UTF-8
  encoding.
\<close>

datatype numero = NaN | Fin rat | PInf | NInf

datatype jsval = Undefined | Null | Booleano bool | Numero numero | Cadena string

text \<open>The comparisons \<open>x > y\<close> and \<open>x <= y\<close> of JavaScript; both are false when an
  operand is \<open>NaN\<close>.\<close>

fun mayor :: "numero \<Rightarrow> numero \<Rightarrow> bool" where
  "mayor (Fin a) (Fin b) = (b < a)"
| "mayor PInf (Fin b) = True"
| "mayor PInf NInf = True"
| "mayor (Fin a) NInf = True"
| "mayor _ _ = False"

fun menor_igual :: "numero \<Rightarrow> numero \<Rightarrow> bool" where
  "menor_igual (Fin a) (Fin b) = (a \<le> b)"
| "menor_igual NaN _ = False"
| "menor_igual _ NaN = False"
| "menor_igual NInf _ = True"
| "menor_igual _ PInf = True"
| "menor_igual _ _ = False"

text \<open>\<open>ToBoolean\<close>: the values for which \<open>if (x)\<close> takes the branch.\<close>

fun truthy :: "jsval \<Rightarrow> bool" where
  "truthy Undefined = False"
| "truthy Null = False"
| "truthy (Booleano b) = b"
| "truthy (Numero n) = (n \<noteq> NaN \<and> n \<noteq> Fin 0)"
| "truthy (Cadena s) = (s \<noteq> [])"

subsection \<open>Rounding to a double\<close>

definition pot2 :: "int \<Rightarrow> rat" where
  "pot2 e = (if 0 \<le> e then 2 ^ nat e else 1 / 2 ^ nat (- e))"

definition pot10 :: "int \<Rightarrow> rat" where
  "pot10 e = (if 0 \<le> e then 10 ^ nat e else 1 / 10 ^ nat (- e))"

text \<open>The number of binary digits of a positive integer.\<close>

function bits :: "int \<Rightarrow> int" where
  "bits n = (if n \<le> 0 then 0 else 1 + bits (n div 2))"
  by pat_completeness auto
termination
  by (relation "measure nat") auto

declare bits.simps [simp del]

text \<open>For \<open>a > 0\<close>, the integer \<open>e\<close> with \<open>2 ^ e \<le> a < 2 ^ (e + 1)\<close>.\<close>

definition exponente2 :: "rat \<Rightarrow> int" where
  "exponente2 a =
     (let (p, q) = quotient_of a;
          d = bits p - bits q
      in if pot2 d \<le> a then d else d - 1)"

text \<open>The nearest integer, the even one of two that are equally near.\<close>

definition redondeo_par :: "rat \<Rightarrow> int" where
  "redondeo_par m =
     (let f = \<lfloor>m\<rfloor>; r = m - of_int f
      in if r < 1 / 2 then f else if 1 / 2 < r then f + 1 else if even f then f else f + 1)"

text \<open>
  The double nearest to a rational: 53 significant bits, the smallest exponent \<open>-1022\<close>
  (below it the spacing stays \<open>2 ^ -1074\<close>, so that tiny values become 0), and an
  infinity from \<open>2 ^ 1024\<close> on.
\<close>

definition doble :: "rat \<Rightarrow> numero" where
  "doble r =
     (if r = 0 then Fin 0
      else
        let a = \<bar>r\<bar>;
            e = max (exponente2 a) (- 1022);
            u = pot2 (e - 52);
            n = redondeo_par (a / u)
        in if 1023 < e \<or> (e = 1023 \<and> n = 2 ^ 53) then (if r < 0 then NInf else PInf)
           else Fin (sgn r * of_int n * u))"

subsection \<open>Numbers to text\<close>

definition cifra :: "nat \<Rightarrow> char" where
  "cifra d = ''0123456789'' ! d"

function digitos :: "int \<Rightarrow> string" where
  "digitos n = (if n < 10 then [cifra (nat n)] else digitos (n div 10) @ [cifra (nat (n mod 10))])"
  by pat_completeness auto
termination
  by (relation "measure nat") auto

declare digitos.simps [simp del]

text \<open>For \<open>a > 0\<close>, the integer \<open>n\<close> with \<open>10 ^ (n - 1) \<le> a < 10 ^ n\<close>.\<close>

definition exponente10 :: "rat \<Rightarrow> int" where
  "exponente10 a =
     (let (p, q) = quotient_of a;
          d = int (length (digitos p)) - int (length (digitos q))
      in if pot10 d \<le> a then d + 1 else d)"

text \<open>
  \<open>Number::toString\<close> takes the integers \<open>s\<close> of \<open>k\<close> digits and \<open>n\<close> with \<open>k\<close> as small
  as possible such that \<open>s * 10 ^ (n - k)\<close> rounds to the number. The search goes through
  \<open>k = 1, 2, ...\<close> (17 digits always suffice), trying the two integers next to
  \<open>a / 10 ^ (n - k)\<close>, and returns \<open>s\<close> and \<open>n\<close>.
\<close>

fun digitos_minimos :: "nat \<Rightarrow> nat \<Rightarrow> rat \<Rightarrow> int \<Rightarrow> int \<times> int" where
  "digitos_minimos 0 k a n = (redondeo_par (a / pot10 (n - int k)), n)"
| "digitos_minimos (Suc c) k a n =
     (let m = a / pot10 (n - int k);
          s0 = \<lfloor>m\<rfloor>;
          ok0 = (doble (of_int s0 * pot10 (n - int k)) = Fin a);
          ok1 = (doble (of_int (s0 + 1) * pot10 (n - int k)) = Fin a);
          s = (if ok0 \<and> ok1 then redondeo_par m else if ok0 then s0 else s0 + 1)
      in if ok0 \<or> ok1 then (if s = 10 ^ k then (1, n + 1) else (s, n))
         else digitos_minimos c (Suc k) a n)"

text \<open>The digits \<open>ds\<close> with the decimal point after the first \<open>n\<close> of them: plain
  notation for \<open>-6 < n \<le> 21\<close>, exponent notation otherwise.\<close>

definition formato :: "string \<Rightarrow> int \<Rightarrow> string" where
  "formato ds n =
     (let k = int (length ds) in
      if k \<le> n \<and> n \<le> 21 then ds @ replicate (nat (n - k)) (CHR ''0'')
      else if 0 < n \<and> n \<le> 21 then take (nat n) ds @ ''.'' @ drop (nat n) ds
      else if - 6 < n \<and> n \<le> 0 then ''0.'' @ replicate (nat (- n)) (CHR ''0'') @ ds
      else
        (if k = 1 then ds else take 1 ds @ ''.'' @ drop 1 ds) @ ''e'' @
        (if 0 \<le> n - 1 then ''+'' else ''-'') @ digitos \<bar>n - 1\<bar>)"

text \<open>\<open>Number.prototype.toString\<close>.\<close>

fun numero_toString :: "numero \<Rightarrow> string" where
  "numero_toString NaN = ''NaN''"
| "numero_toString PInf = ''Infinity''"
| "numero_toString NInf = ''-Infinity''"
| "numero_toString (Fin r) =
     (if r = 0 then ''0''
      else
        let (s, n) = digitos_minimos 17 1 \<bar>r\<bar> (exponente10 \<bar>r\<bar>)
        in (if r < 0 then ''-'' else []) @ formato (digitos s) n)"

text \<open>The text a template literal \<open>`${x}`\<close>, a string concatenation or \<open>x.toString()\<close>
  produces.\<close>

fun toString :: "jsval \<Rightarrow> string" where
  "toString Undefined = ''undefined''"
| "toString Null = ''null''"
| "toString (Booleano b) = (if b then ''true'' else ''false'')"
| "toString (Numero n) = numero_toString n"
| "toString (Cadena s) = s"

subsection \<open>Text to numbers: \<open>parseInt\<close> and \<open>parseFloat\<close>\<close>

text \<open>
  The white space that \<open>parseInt\<close> and \<open>parseFloat\<close> skip: the number of bytes of the
  white-space or line-terminator character at the head of the string, 0 when there is
  none. The characters are TAB, LF, VT, FF, CR and SP, and in UTF-8 U+00A0, U+1680,
  U+2000 to U+200A, U+2028, U+2029, U+202F, U+205F, U+3000 and U+FEFF.
\<close>

definition espacio :: "char \<Rightarrow> bool" where
  "espacio c = (c \<in> set [CHR 0x09, CHR 0x0A, CHR 0x0B, CHR 0x0C, CHR 0x0D, CHR 0x20])"

definition ancho_espacio :: "string \<Rightarrow> nat" where
  "ancho_espacio s =
     (if s = [] then 0
      else if espacio (hd s) then 1
      else if take 2 s = [CHR 0xC2, CHR 0xA0] then 2
      else if take 3 s \<in> set
           [[CHR 0xE1, CHR 0x9A, CHR 0x80],
            [CHR 0xE2, CHR 0x80, CHR 0x80], [CHR 0xE2, CHR 0x80, CHR 0x81],
            [CHR 0xE2, CHR 0x80, CHR 0x82], [CHR 0xE2, CHR 0x80, CHR 0x83],
            [CHR 0xE2, CHR 0x80, CHR 0x84], [CHR 0xE2, CHR 0x80, CHR 0x85],
            [CHR 0xE2, CHR 0x80, CHR 0x86], [CHR 0xE2, CHR 0x80, CHR 0x87],
            [CHR 0xE2, CHR 0x80, CHR 0x88], [CHR 0xE2, CHR 0x80, CHR 0x89],
            [CHR 0xE2, CHR 0x80, CHR 0x8A],
            [CHR 0xE2, CHR 0x80, CHR 0xA8], [CHR 0xE2, CHR 0x80, CHR 0xA9],
            [CHR 0xE2, CHR 0x80, CHR 0xAF], [CHR 0xE2, CHR 0x81, CHR 0x9F],
            [CHR 0xE3, CHR 0x80, CHR 0x80], [CHR 0xEF, CHR 0xBB, CHR 0xBF]]
      then 3
      else 0)"

function saltar_espacios :: "string \<Rightarrow> string" where
  "saltar_espacios s =
     (if ancho_espacio s = 0 then s else saltar_espacios (drop (ancho_espacio s) s))"
  by pat_completeness auto
termination
  by (relation "measure length") (auto simp: ancho_espacio_def split: if_splits)

declare saltar_espacios.simps [simp del]

definition valor_digito :: "char \<Rightarrow> nat option" where
  "valor_digito = map_of
     [(CHR ''0'', 0), (CHR ''1'', 1), (CHR ''2'', 2), (CHR ''3'', 3), (CHR ''4'', 4),
      (CHR ''5'', 5), (CHR ''6'', 6), (CHR ''7'', 7), (CHR ''8'', 8), (CHR ''9'', 9),
      (CHR ''a'', 10), (CHR ''b'', 11), (CHR ''c'', 12), (CHR ''d'', 13), (CHR ''e'', 14),
      (CHR ''f'', 15), (CHR ''A'', 10), (CHR ''B'', 11), (CHR ''C'', 12), (CHR ''D'', 13),
      (CHR ''E'', 14), (CHR ''F'', 15)]"

text \<open>The values of the longest prefix of digits in base \<open>b\<close>.\<close>

fun prefijo_digitos :: "nat \<Rightarrow> string \<Rightarrow> nat list" where
  "prefijo_digitos b [] = []"
| "prefijo_digitos b (c # cs) =
     (case valor_digito c of
        None \<Rightarrow> []
      | Some d \<Rightarrow> if d < b then d # prefijo_digitos b cs else [])"

definition valor_en_base :: "nat \<Rightarrow> nat list \<Rightarrow> int" where
  "valor_en_base b ds = foldl (\<lambda>a d. a * int b + int d) 0 ds"

definition signo :: "string \<Rightarrow> int \<times> string" where
  "signo s =
     (case s of
        [] \<Rightarrow> (1, s)
      | c # t \<Rightarrow> if c = CHR ''-'' then (- 1, t) else if c = CHR ''+'' then (1, t) else (1, s))"

definition prefijo_hex :: "string \<Rightarrow> bool" where
  "prefijo_hex s = (take 2 s = ''0x'' \<or> take 2 s = ''0X'')"

text \<open>\<open>parseInt(s)\<close> with no radix argument: leading white space, a sign, an optional
  \<open>0x\<close>, then the longest run of digits; \<open>NaN\<close> when there is none, and the double
  nearest to the integer otherwise.\<close>

definition parseInt :: "string \<Rightarrow> numero" where
  "parseInt s =
     (let (sg, s1) = signo (saltar_espacios s);
          b = (if prefijo_hex s1 then 16 else 10);
          ds = prefijo_digitos b (if prefijo_hex s1 then drop 2 s1 else s1)
      in if ds = [] then NaN else doble (of_int (sg * valor_en_base b ds)))"

definition exponente :: "string \<Rightarrow> int" where
  "exponente s =
     (case s of
        [] \<Rightarrow> 0
      | c # t \<Rightarrow>
          if c = CHR ''e'' \<or> c = CHR ''E'' then
            (let (sg, t1) = signo t; ds = prefijo_digitos 10 t1
             in if ds = [] then 0 else sg * valor_en_base 10 ds)
          else 0)"

text \<open>
  The value of a literal is \<open>N * 10 ^ x\<close> for the integer \<open>N\<close> of its \<open>L\<close> digits. An
  \<open>x\<close> above 401 or below \<open>-(L + 401)\<close> is replaced by that bound: either way the value
  is beyond the largest double, or below half the smallest one, and rounds the same.
\<close>

definition acotar :: "nat \<Rightarrow> int \<Rightarrow> int" where
  "acotar L x = max (- int L - 401) (min 401 x)"

text \<open>\<open>parseFloat(s)\<close>: leading white space, a sign, then \<open>Infinity\<close> or the longest
  prefix that is a decimal literal (digits, a fraction, an exponent); \<open>NaN\<close> when there
  is no digit, and the double nearest to the value of the literal otherwise.\<close>

definition parseFloat :: "string \<Rightarrow> numero" where
  "parseFloat s =
     (let (sg, s1) = signo (saltar_espacios s) in
      if take 8 s1 = ''Infinity'' then (if sg < 0 then NInf else PInf)
      else
        let ent = prefijo_digitos 10 s1;
            r1 = drop (length ent) s1;
            fr = (if take 1 r1 = ''.'' then prefijo_digitos 10 (drop 1 r1) else []);
            r2 = (if take 1 r1 = ''.'' then drop (1 + length fr) r1 else r1)
        in if ent = [] \<and> fr = [] then NaN
           else doble (of_int sg * of_int (valor_en_base 10 (ent @ fr))
                         * pot10 (acotar (length (ent @ fr))
                                    (exponente r2 - int (length fr)))))"

text \<open>\<open>getAttribute\<close> returns \<open>null\<close> for a missing attribute, and \<open>parseFloat\<close>
  converts its argument to a string first.\<close>

definition parseFloat_atributo :: "string option \<Rightarrow> numero" where
  "parseFloat_atributo a = parseFloat (case a of None \<Rightarrow> ''null'' | Some s \<Rightarrow> s)"

section \<open>\<open>escapeHtml\<close>\<close>

text \<open>\<open>s.replace(/c/g, r)\<close> for a single character \<open>c\<close>.\<close>

definition replace_g :: "char \<Rightarrow> string \<Rightarrow> string \<Rightarrow> string" where
  "replace_g c r s = concat (map (\<lambda>x. if x = c then r else [x]) s)"

text \<open>\<open>EntregaArticulos.escapeHtml\<close> and \<open>EntregaBienes.escapeHtml\<close> have the same
  body; the five replacements are applied in the order of the source.\<close>

definition escapeHtml :: "jsval \<Rightarrow> string" where
  "escapeHtml unsafe =
     (if \<not> truthy unsafe then []
      else
        let s0 = toString unsafe;
            s1 = replace_g (CHR ''&'') ''&amp;'' s0;
            s2 = replace_g (CHR ''<'') ''&lt;'' s1;
            s3 = replace_g (CHR ''>'') ''&gt;'' s2;
            s4 = replace_g (CHR 0x22) ''&quot;'' s3;
            s5 = replace_g (CHR 0x27) ''&#039;'' s4
        in s5)"

section \<open>The document\<close>

text \<open>
  The rows of the table body and the elements inside them that the code looks up by id.
  An id built as \<open>`cantidad_${n}`\<close> is kept as the pair \<open>(Cantidad, n)\<close>; the id
  \<open>`fila_${n}`\<close> of a row is the number \<open>n\<close>. The row that shows the empty-state
  message has no id and a single cell. Elements with such ids occur inside the table body
  only.
\<close>

datatype campo = Articulo | Cantidad | Lote | DetalleSolicitud | Activo | Serie | EstadoFisico

record opcion =
  op_value :: string
  op_data_stock :: "string option"

text \<open>An \<open>input\<close> with its value and its \<open>data-pendiente\<close> and \<open>data-stock\<close>
  attributes, or a \<open>select\<close> with its options and \<open>selectedIndex\<close>.\<close>

datatype elemento =
    Input string "string option" "string option"
  | Select "opcion list" int

fun el_value :: "elemento \<Rightarrow> string" where
  "el_value (Input v p s) = v"
| "el_value (Select ops i) = (if 0 \<le> i \<and> nat i < length ops then op_value (ops ! nat i) else [])"

fun data_pendiente :: "elemento \<Rightarrow> string option" where
  "data_pendiente (Input v p s) = p"
| "data_pendiente (Select ops i) = None"

fun data_stock :: "elemento \<Rightarrow> string option" where
  "data_stock (Input v p s) = s"
| "data_stock (Select ops i) = None"

record fila =
  fila_id :: "nat option"
  celdas :: nat
  elementos :: "((campo \<times> nat) \<times> elemento) list"

definition fila_vacia :: fila where
  "fila_vacia = \<lparr>fila_id = None, celdas = 1, elementos = []\<rparr>"

text \<open>\<open>document.getElementById\<close>: the first element with the id, in document order.\<close>

definition getFila :: "fila list \<Rightarrow> nat \<Rightarrow> fila option" where
  "getFila tb i = find (\<lambda>f. fila_id f = Some i) tb"

definition getElemento :: "fila list \<Rightarrow> campo \<Rightarrow> nat \<Rightarrow> elemento option" where
  "getElemento tb c i = map_of (concat (map elementos tb)) (c, i)"

text \<open>The messages shown with \<open>alert\<close>, with the values interpolated into them.\<close>

datatype alerta =
    DebeAgregarArticulo
  | SeleccioneArticulo
  | CantidadInvalida
  | ExcedePendiente numero numero
  | ExcedeStockSolicitud numero numero
  | ExcedeStockManual numero numero
  | ErrorCargarSolicitud string
  | ErrorCargarGenerico
  | DebeAgregarBien
  | SeleccioneActivo

text \<open>
  What both forms share: the row counter, the table body (\<open>articulosBody\<close> or
  \<open>bienesBody\<close>, \<open>None\<close> when the page has no such element), the value of the hidden
  field \<open>detallesJson\<close>, the alerts shown so far and the number of calls of
  \<open>e.target.submit()\<close>.
\<close>

record formulario =
  contadorFilas :: nat
  cuerpo :: "fila list option"
  detallesJson :: "string option"
  alertas :: "alerta list"
  enviados :: nat

definition alert :: "alerta \<Rightarrow> 'a formulario_scheme \<Rightarrow> 'a formulario_scheme" where
  "alert a st = st\<lparr>alertas := alertas st @ [a]\<rparr>"

text \<open>An entry of \<open>articulosDisponibles\<close>.\<close>

record articulo =
  a_id :: jsval
  a_codigo :: jsval
  a_nombre :: jsval
  a_unidad :: jsval
  a_stock :: jsval

text \<open>The state of \<open>EntregaArticulos\<close> and the elements of its page:
  \<open>btnAgregarArticulo\<close> holds the button's \<open>disabled\<close>, \<open>infoSolicitud\<close> whether the
  panel carries the class \<open>d-none\<close>, \<open>datosSolicitud\<close> the panel's \<open>innerHTML\<close>,
  \<open>id_bodega_origen\<close> the text last assigned to the value of that selector; each is
  \<open>None\<close> when the page has no such element. The field \<open>detallesArticulos\<close> of the
  source is never read or written.\<close>

record entregaArticulos = formulario +
  articulosDisponibles :: "articulo list"
  esSolicitud :: bool
  btnAgregarArticulo :: "bool option"
  infoSolicitud :: "bool option"
  datosSolicitud :: "string option"
  id_bodega_origen :: "string option"

section \<open>\<open>EntregaArticulos\<close>: rows\<close>

text \<open>A line of the response of \<open>/bodega/ajax/solicitud/<id>/articulos/\<close>, its header
  and the response itself. A field the response does not carry is \<open>Undefined\<close>; an
  object or array it does not carry is \<open>None\<close>, and so is an element of \<open>articulos\<close>
  that is \<open>null\<close> instead of an object.\<close>

record articulo_solicitud =
  r_articulo_id :: jsval
  r_articulo_codigo :: jsval
  r_articulo_nombre :: jsval
  r_unidad_medida :: jsval
  r_cantidad_pendiente :: jsval
  r_stock_actual :: jsval
  r_detalle_solicitud_id :: jsval

record solicitud =
  s_numero :: jsval
  s_solicitante :: jsval
  s_departamento :: jsval
  s_motivo :: jsval
  s_bodega_origen_id :: jsval

record respuesta =
  r_success :: jsval
  r_solicitud :: "solicitud option"
  r_articulos :: "articulo_solicitud option list option"
  r_error :: jsval
  r_message :: jsval

text \<open>An \<open>input\<close> of type \<open>number\<close> keeps an assigned value only when it is a valid
  floating-point number of HTML, and the empty string otherwise.\<close>

definition es_digito :: "char \<Rightarrow> bool" where
  "es_digito c = (case valor_digito c of None \<Rightarrow> False | Some d \<Rightarrow> d < 10)"

definition exponente_valido :: "string \<Rightarrow> bool" where
  "exponente_valido s =
     (if s = [] then True
      else if take 1 s = ''e'' \<or> take 1 s = ''E'' then
        (let t = drop 1 s;
             t1 = (if take 1 t = ''-'' \<or> take 1 t = ''+'' then drop 1 t else t)
         in t1 \<noteq> [] \<and> list_all es_digito t1)
      else False)"

definition numero_valido :: "string \<Rightarrow> bool" where
  "numero_valido s =
     (let s1 = (if take 1 s = ''-'' then drop 1 s else s);
          ent = takeWhile es_digito s1;
          r1 = dropWhile es_digito s1
      in if take 1 r1 = ''.'' then
           takeWhile es_digito (drop 1 r1) \<noteq> [] \<and>
           exponente_valido (dropWhile es_digito (drop 1 r1))
         else ent \<noteq> [] \<and> exponente_valido r1)"

definition sanitizar :: "string \<Rightarrow> string" where
  "sanitizar s = (if numero_valido s then s else [])"

text \<open>
  \<open>crearSelectArticulo\<close>: the placeholder option and one option per catalog entry, the
  first option selected, as in a drop-down that was just built. The attribute values are
  those the HTML parser reads back from the interpolated text of an identifier or a
  number. The cell that displays the stock is text only and is not part of the model.
\<close>

definition crearSelectArticulo :: "entregaArticulos \<Rightarrow> nat \<Rightarrow> (campo \<times> nat) \<times> elemento" where
  "crearSelectArticulo st idFila =
     ((Articulo, idFila),
      Select (\<lparr>op_value = [], op_data_stock = None\<rparr> #
              map (\<lambda>art. \<lparr>op_value = toString (a_id art),
                           op_data_stock = Some (toString (a_stock art))\<rparr>)
                  (articulosDisponibles st)) 0)"

definition crearInputCantidad :: "nat \<Rightarrow> articulo_solicitud option \<Rightarrow> (campo \<times> nat) \<times> elemento" where
  "crearInputCantidad idFila articulo =
     ((Cantidad, idFila),
      (case articulo of
         None \<Rightarrow> Input [] None None
       | Some a \<Rightarrow>
           Input (sanitizar (toString (r_cantidad_pendiente a)))
                 (Some (toString (r_cantidad_pendiente a)))
                 (Some (toString (r_stock_actual a)))))"

definition crearInputLote :: "nat \<Rightarrow> (campo \<times> nat) \<times> elemento" where
  "crearInputLote idFila = ((Lote, idFila), Input [] None None)"

text \<open>A function that can throw returns \<open>Lanza\<close> with the state reached when the
  exception left it.\<close>

datatype 'a resultado = Normal 'a | Lanza 'a

fun estado_de :: "'a resultado \<Rightarrow> 'a" where
  "estado_de (Normal st) = st"
| "estado_de (Lanza st) = st"

text \<open>
  \<open>agregarFilaSolicitud\<close>: a row for a line of the request, with the two hidden inputs
  of its first cell. For a line that is \<open>null\<close>, reading \<open>articulo.articulo_codigo\<close>
  throws when the row has its id and its first cell, before the counter is incremented.
\<close>

definition agregarFilaSolicitud ::
  "articulo_solicitud option \<Rightarrow> entregaArticulos \<Rightarrow> entregaArticulos resultado" where
  "agregarFilaSolicitud linea st =
     (case cuerpo st of
        None \<Rightarrow> Normal st
      | Some tbody \<Rightarrow>
          let n = contadorFilas st in
          case linea of
            None \<Rightarrow>
              Lanza (st\<lparr>cuerpo := Some (tbody @ [\<lparr>fila_id = Some n, celdas = 1,
                                                   elementos = []\<rparr>])\<rparr>)
          | Some articulo \<Rightarrow>
              let nueva = \<lparr>fila_id = Some n, celdas = 5,
                           elementos =
                             [((Articulo, n),
                               Input (toString (r_articulo_id articulo)) None None),
                              ((DetalleSolicitud, n),
                               Input (toString (r_detalle_solicitud_id articulo)) None None),
                              crearInputCantidad n (Some articulo),
                              crearInputLote n]\<rparr>
              in Normal (st\<lparr>cuerpo := Some (tbody @ [nueva]), contadorFilas := n + 1\<rparr>))"

text \<open>\<open>articulos.forEach(art => this.agregarFilaSolicitud(art))\<close>: the first exception
  ends the loop.\<close>

fun agregarFilas ::
  "articulo_solicitud option list \<Rightarrow> entregaArticulos \<Rightarrow> entregaArticulos resultado" where
  "agregarFilas [] st = Normal st"
| "agregarFilas (linea # resto) st =
     (case agregarFilaSolicitud linea st of
        Lanza st' \<Rightarrow> Lanza st'
      | Normal st' \<Rightarrow> agregarFilas resto st')"

text \<open>\<open>agregarArticulo\<close>: a manual row; the empty-state row is removed first.\<close>

definition agregarArticulo :: "entregaArticulos \<Rightarrow> entregaArticulos" where
  "agregarArticulo st =
     (case cuerpo st of
        None \<Rightarrow> st
      | Some tbody0 \<Rightarrow>
          let tbody = (if length tbody0 = 1 \<and> celdas (hd tbody0) = 1 then [] else tbody0);
              idFila = contadorFilas st;
              nueva = \<lparr>fila_id = Some idFila, celdas = 5,
                       elementos =
                         [crearSelectArticulo st idFila,
                          crearInputCantidad idFila None,
                          crearInputLote idFila]\<rparr>
          in st\<lparr>cuerpo := Some (tbody @ [nueva]), contadorFilas := idFila + 1\<rparr>)"

text \<open>\<open>limpiarTabla\<close>: the empty-state row, and the counter back to 0.\<close>

definition limpiarTabla :: "entregaArticulos \<Rightarrow> entregaArticulos" where
  "limpiarTabla st =
     (case cuerpo st of
        None \<Rightarrow> st
      | Some tbody \<Rightarrow> st\<lparr>cuerpo := Some [fila_vacia], contadorFilas := 0\<rparr>)"

text \<open>\<open>fila.remove()\<close> on the first row with the id.\<close>

fun quitar :: "nat \<Rightarrow> fila list \<Rightarrow> fila list" where
  "quitar n [] = []"
| "quitar n (f # fs) = (if fila_id f = Some n then fs else f # quitar n fs)"

definition eliminarFila :: "nat \<Rightarrow> entregaArticulos \<Rightarrow> entregaArticulos" where
  "eliminarFila idFila st =
     (let st1 = (case cuerpo st of
                   None \<Rightarrow> st
                 | Some tbody \<Rightarrow> st\<lparr>cuerpo := Some (quitar idFila tbody)\<rparr>)
      in if cuerpo st1 = Some [] then limpiarTabla st1 else st1)"

section \<open>\<open>EntregaArticulos\<close>: selecting and clearing a request\<close>

definition sangria :: "nat \<Rightarrow> string" where
  "sangria n = CHR 0x0A # replicate n (CHR 0x20)"

definition parrafo :: "string \<Rightarrow> string \<Rightarrow> string \<Rightarrow> string" where
  "parrafo clase rotulo texto =
     ''<p class='' @ [CHR 0x22] @ clase @ [CHR 0x22] @ ''><strong>'' @ rotulo @
     '':</strong> '' @ texto @ ''</p>''"

text \<open>The template literal of \<open>mostrarInfoSolicitud\<close>; the first label is
  \<open>N\<close>, \<open>u\<close> with an acute accent in UTF-8, \<open>mero\<close>.\<close>

definition plantilla_solicitud :: "solicitud \<Rightarrow> string" where
  "plantilla_solicitud sol =
     sangria 12 @ parrafo ''mb-1'' (''N'' @ [CHR 0xC3, CHR 0xBA] @ ''mero'')
                    (toString (s_numero sol)) @
     sangria 12 @ parrafo ''mb-1'' ''Solicitante'' (toString (s_solicitante sol)) @
     sangria 12 @ parrafo ''mb-1'' ''Departamento'' (toString (s_departamento sol)) @
     sangria 12 @ parrafo ''mb-0'' ''Motivo''
                    (toString (if truthy (s_motivo sol) then s_motivo sol else Cadena ''N/A'')) @
     sangria 8"

text \<open>\<open>mostrarInfoSolicitud\<close>: reading a field of a missing \<open>solicitud\<close> throws.\<close>

definition mostrarInfoSolicitud ::
  "solicitud option \<Rightarrow> entregaArticulos \<Rightarrow> entregaArticulos resultado" where
  "mostrarInfoSolicitud sol st =
     (if infoSolicitud st = None \<or> datosSolicitud st = None then Normal st
      else
        case sol of
          None \<Rightarrow> Lanza st
        | Some solicitud \<Rightarrow>
            Normal (st\<lparr>datosSolicitud := Some (plantilla_solicitud solicitud),
                       infoSolicitud := Some False\<rparr>))"

text \<open>\<open>cargarArticulosEnTabla\<close>: the body is emptied before \<open>articulos.length\<close> is
  read.\<close>

definition cargarArticulosEnTabla ::
  "articulo_solicitud option list option \<Rightarrow> entregaArticulos \<Rightarrow> entregaArticulos resultado" where
  "cargarArticulosEnTabla arts st =
     (case cuerpo st of
        None \<Rightarrow> Normal st
      | Some tbody \<Rightarrow>
          let st1 = st\<lparr>cuerpo := Some []\<rparr> in
          case arts of
            None \<Rightarrow> Lanza st1
          | Some articulos \<Rightarrow>
              if length articulos = 0 then Normal (st1\<lparr>cuerpo := Some [fila_vacia]\<rparr>)
              else agregarFilas articulos st1)"

text \<open>The outcome of \<open>fetch\<close> followed by \<open>response.json()\<close>: one of the two promises
  rejects, or the parsed object arrives.\<close>

datatype 'a promesa = Rechazada | Cumplida 'a

text \<open>The body of the \<open>if (data.success)\<close> branch.\<close>

definition solicitud_cargada :: "respuesta \<Rightarrow> entregaArticulos \<Rightarrow> entregaArticulos resultado" where
  "solicitud_cargada data st =
     (case mostrarInfoSolicitud (r_solicitud data) (st\<lparr>esSolicitud := True\<rparr>) of
        Lanza st1 \<Rightarrow> Lanza st1
      | Normal st1 \<Rightarrow>
          (case cargarArticulosEnTabla (r_articulos data) st1 of
             Lanza st2 \<Rightarrow> Lanza st2
           | Normal st2 \<Rightarrow>
               let st3 = (case btnAgregarArticulo st2 of
                            None \<Rightarrow> st2
                          | Some d \<Rightarrow> st2\<lparr>btnAgregarArticulo := Some True\<rparr>)
               in case r_solicitud data of
                    None \<Rightarrow> Lanza st3
                  | Some sol \<Rightarrow>
                      if truthy (s_bodega_origen_id sol) then
                        (case id_bodega_origen st3 of
                           None \<Rightarrow> Normal st3
                         | Some v \<Rightarrow>
                             Normal (st3\<lparr>id_bodega_origen :=
                                            Some (toString (s_bodega_origen_id sol))\<rparr>))
                      else Normal st3))"

text \<open>\<open>cargarArticulosSolicitud\<close>, given what the request produced. The \<open>catch\<close>
  block shows the generic message.\<close>

definition cargarArticulosSolicitud ::
  "respuesta promesa \<Rightarrow> entregaArticulos \<Rightarrow> entregaArticulos" where
  "cargarArticulosSolicitud p st =
     (case p of
        Rechazada \<Rightarrow> alert ErrorCargarGenerico st
      | Cumplida data \<Rightarrow>
          if truthy (r_success data) then
            (case solicitud_cargada data st of
               Normal st' \<Rightarrow> st'
             | Lanza st' \<Rightarrow> alert ErrorCargarGenerico st')
          else
            alert (ErrorCargarSolicitud
                     (toString (if truthy (r_error data) then r_error data else r_message data)))
                  st)"

definition limpiarArticulosSolicitud :: "entregaArticulos \<Rightarrow> entregaArticulos" where
  "limpiarArticulosSolicitud st =
     (let st1 = st\<lparr>esSolicitud := False\<rparr>;
          st2 = (case infoSolicitud st1 of
                   None \<Rightarrow> st1
                 | Some h \<Rightarrow> st1\<lparr>infoSolicitud := Some True\<rparr>);
          st3 = limpiarTabla st2
      in case btnAgregarArticulo st3 of
           None \<Rightarrow> st3
         | Some d \<Rightarrow> st3\<lparr>btnAgregarArticulo := Some False\<rparr>)"

text \<open>The events of the page that change the rows: the click on the add button, the click
  on the delete button of a row, and the change of the request selector to a request
  (with the outcome of its fetch) or to none.\<close>

datatype accion =
    ClicAgregar
  | ClicEliminar nat
  | SeleccionarSolicitud "respuesta promesa"
  | QuitarSolicitud

fun ejecutar :: "accion \<Rightarrow> entregaArticulos \<Rightarrow> entregaArticulos" where
  "ejecutar ClicAgregar st = agregarArticulo st"
| "ejecutar (ClicEliminar idFila) st = eliminarFila idFila st"
| "ejecutar (SeleccionarSolicitud p) st = cargarArticulosSolicitud p st"
| "ejecutar QuitarSolicitud st = limpiarArticulosSolicitud st"

text \<open>The ids of the rows of the table, in document order.\<close>

definition ids_filas :: "fila list \<Rightarrow> nat list" where
  "ids_filas tbody = concat (map (\<lambda>f. case fila_id f of None \<Rightarrow> [] | Some n \<Rightarrow> [n]) tbody)"

definition ids_tabla :: "'a formulario_scheme \<Rightarrow> nat list" where
  "ids_tabla st = (case cuerpo st of None \<Rightarrow> [] | Some tbody \<Rightarrow> ids_filas tbody)"

section \<open>Serialization\<close>

text \<open>
  The records pushed to \<open>detalles\<close> hold \<open>null\<close>, numbers and strings. An object is the
  list of its properties in insertion order, which is the order \<open>JSON.stringify\<close> writes
  them in.
\<close>

datatype json = JNull | JNumero numero | JCadena string

type_synonym objeto = "(string \<times> json) list"

definition cifra_hex :: "nat \<Rightarrow> char" where
  "cifra_hex d = ''0123456789abcdef'' ! d"

definition json_caracter :: "char \<Rightarrow> string" where
  "json_caracter c =
     (if c = CHR 0x22 then [CHR 0x5C, CHR 0x22]
      else if c = CHR 0x5C then [CHR 0x5C, CHR 0x5C]
      else if c = CHR 0x08 then [CHR 0x5C, CHR ''b'']
      else if c = CHR 0x09 then [CHR 0x5C, CHR ''t'']
      else if c = CHR 0x0A then [CHR 0x5C, CHR ''n'']
      else if c = CHR 0x0C then [CHR 0x5C, CHR ''f'']
      else if c = CHR 0x0D then [CHR 0x5C, CHR ''r'']
      else if (of_char c :: nat) < 32 then
        [CHR 0x5C] @ ''u00'' @ [cifra_hex (of_char c div 16), cifra_hex (of_char c mod 16)]
      else [c])"

definition comillas :: "string \<Rightarrow> string" where
  "comillas s = [CHR 0x22] @ s @ [CHR 0x22]"

text \<open>A number that is not finite is written as \<open>null\<close>.\<close>

fun json_texto :: "json \<Rightarrow> string" where
  "json_texto JNull = ''null''"
| "json_texto (JNumero (Fin r)) = numero_toString (Fin r)"
| "json_texto (JNumero n) = ''null''"
| "json_texto (JCadena s) = comillas (concat (map json_caracter s))"

fun unir :: "string list \<Rightarrow> string" where
  "unir [] = []"
| "unir [x] = x"
| "unir (x # y # r) = x @ '','' @ unir (y # r)"

definition propiedad :: "string \<times> json \<Rightarrow> string" where
  "propiedad kv = comillas (fst kv) @ '':'' @ json_texto (snd kv)"

definition objeto_texto :: "objeto \<Rightarrow> string" where
  "objeto_texto ob = ''{'' @ unir (map propiedad ob) @ ''}''"

text \<open>\<open>JSON.stringify(detalles)\<close>.\<close>

definition JSON_stringify :: "objeto list \<Rightarrow> string" where
  "JSON_stringify detalles = ''['' @ unir (map objeto_texto detalles) @ '']''"

section \<open>\<open>EntregaArticulos\<close>: validation at submit\<close>

text \<open>A validator returns \<open>true\<close> (\<open>Valida\<close>), shows a message and returns \<open>false\<close>
  (\<open>Invalida\<close>), or throws a \<open>TypeError\<close>.\<close>

datatype validacion = Valida | Invalida alerta | ErrorDeTipo

definition validarCantidadSolicitud :: "elemento \<Rightarrow> validacion" where
  "validarCantidadSolicitud inputCantidad =
     (let cantidadPendiente = parseFloat_atributo (data_pendiente inputCantidad);
          cantidadAEntregar = parseFloat (el_value inputCantidad);
          stockDisponible = parseFloat_atributo (data_stock inputCantidad)
      in if mayor cantidadAEntregar cantidadPendiente then
           Invalida (ExcedePendiente cantidadAEntregar cantidadPendiente)
         else if mayor cantidadAEntregar stockDisponible then
           Invalida (ExcedeStockSolicitud cantidadAEntregar stockDisponible)
         else Valida)"

text \<open>\<open>validarStockDisponible\<close>: an element without \<open>options\<close>, or no selected option,
  makes the read of \<open>data-stock\<close> throw.\<close>

definition validarStockDisponible :: "elemento \<Rightarrow> elemento \<Rightarrow> validacion" where
  "validarStockDisponible selectArticulo inputCantidad =
     (case selectArticulo of
        Input v p s \<Rightarrow> ErrorDeTipo
      | Select ops i \<Rightarrow>
          if 0 \<le> i \<and> nat i < length ops then
            (let opcion = ops ! nat i;
                 stockDisponible = parseFloat_atributo (op_data_stock opcion);
                 cantidadSolicitada = parseFloat (el_value inputCantidad)
             in if mayor cantidadSolicitada stockDisponible then
                  Invalida (ExcedeStockManual cantidadSolicitada stockDisponible)
                else Valida)
          else ErrorDeTipo)"

text \<open>What one pass of the loop over the row indices does: \<open>continue\<close>, push a record,
  show a message and return \<open>false\<close>, or throw.\<close>

datatype paso = Continuar | Agregar objeto | Rechazar alerta | Excepcion

text \<open>\<open>inputLote ? (inputLote.value || null) : null\<close>, and the same for the serial number
  and the condition of the goods form.\<close>

definition valor_o_null :: "elemento option \<Rightarrow> json" where
  "valor_o_null e =
     (case e of
        None \<Rightarrow> JNull
      | Some x \<Rightarrow> if el_value x = [] then JNull else JCadena (el_value x))"

text \<open>The end of the loop body, from the check of the quantity on.\<close>

definition construirDetalle :: "numero \<Rightarrow> numero option \<Rightarrow> elemento \<Rightarrow> elemento option \<Rightarrow> paso" where
  "construirDetalle articuloId detalleSolicitudId inputCantidad inputLote =
     (if el_value inputCantidad = [] \<or> menor_igual (parseFloat (el_value inputCantidad)) (Fin 0)
      then Rechazar CantidadInvalida
      else
        let detalle = [(''articulo_id'', JNumero articuloId),
                       (''cantidad'', JNumero (parseFloat (el_value inputCantidad))),
                       (''lote'', valor_o_null inputLote)]
        in case detalleSolicitudId of
             None \<Rightarrow> Agregar detalle
           | Some d \<Rightarrow>
               if truthy (Numero d) then Agregar (detalle @ [(''detalle_solicitud_id'', JNumero d)])
               else Agregar detalle)"

definition procesarFila :: "bool \<Rightarrow> fila list \<Rightarrow> nat \<Rightarrow> paso" where
  "procesarFila modoSolicitud tbody i =
     (case getFila tbody i of
        None \<Rightarrow> Continuar
      | Some fila \<Rightarrow>
          (case getElemento tbody Cantidad i of
             None \<Rightarrow> Continuar
           | Some inputCantidad \<Rightarrow>
               let inputLote = getElemento tbody Lote i in
               if modoSolicitud then
                 (case getElemento tbody Articulo i of
                    None \<Rightarrow> Continuar
                  | Some inputArticulo \<Rightarrow>
                      (case getElemento tbody DetalleSolicitud i of
                         None \<Rightarrow> Continuar
                       | Some inputDetalleSolicitud \<Rightarrow>
                           (case validarCantidadSolicitud inputCantidad of
                              Invalida a \<Rightarrow> Rechazar a
                            | ErrorDeTipo \<Rightarrow> Excepcion
                            | Valida \<Rightarrow>
                                construirDetalle (parseInt (el_value inputArticulo))
                                  (Some (parseInt (el_value inputDetalleSolicitud)))
                                  inputCantidad inputLote)))
               else
                 (case getElemento tbody Articulo i of
                    None \<Rightarrow> Rechazar SeleccioneArticulo
                  | Some selectArticulo \<Rightarrow>
                      if el_value selectArticulo = [] then Rechazar SeleccioneArticulo
                      else
                        (case validarStockDisponible selectArticulo inputCantidad of
                           Invalida a \<Rightarrow> Rechazar a
                         | ErrorDeTipo \<Rightarrow> Excepcion
                         | Valida \<Rightarrow>
                             construirDetalle (parseInt (el_value selectArticulo)) None
                               inputCantidad inputLote))))"

text \<open>The loop \<open>for (let i = 0; i < this.contadorFilas; i++)\<close>, over the list of its
  indices, with the records pushed so far.\<close>

datatype recorrido = Completo "objeto list" | Rechazado alerta | Interrumpido

fun recorrer :: "(nat \<Rightarrow> paso) \<Rightarrow> nat list \<Rightarrow> objeto list \<Rightarrow> recorrido" where
  "recorrer cuerpo_bucle [] detalles = Completo detalles"
| "recorrer cuerpo_bucle (i # resto) detalles =
     (case cuerpo_bucle i of
        Continuar \<Rightarrow> recorrer cuerpo_bucle resto detalles
      | Agregar detalle \<Rightarrow> recorrer cuerpo_bucle resto (detalles @ [detalle])
      | Rechazar a \<Rightarrow> Rechazado a
      | Excepcion \<Rightarrow> Interrumpido)"

text \<open>What the submit handler returns, or that it threw.\<close>

datatype retorno = Devuelve bool | TypeError

text \<open>The end of both submit handlers: the hidden field, when the page has it, receives
  the text, and the form is submitted.\<close>

definition guardarYEnviar :: "objeto list \<Rightarrow> 'a formulario_scheme \<Rightarrow> 'a formulario_scheme" where
  "guardarYEnviar detalles st =
     (let st1 = (case detallesJson st of
                   None \<Rightarrow> st
                 | Some v \<Rightarrow> st\<lparr>detallesJson := Some (JSON_stringify detalles)\<rparr>)
      in st1\<lparr>enviados := enviados st1 + 1\<rparr>)"

definition validarYEnviarFormulario :: "entregaArticulos \<Rightarrow> entregaArticulos \<times> retorno" where
  "validarYEnviarFormulario st =
     (case cuerpo st of
        None \<Rightarrow> (alert DebeAgregarArticulo st, Devuelve False)
      | Some [] \<Rightarrow> (alert DebeAgregarArticulo st, Devuelve False)
      | Some (primera # otras) \<Rightarrow>
          if celdas primera = 1 then (alert DebeAgregarArticulo st, Devuelve False)
          else
            (case recorrer (procesarFila (esSolicitud st) (primera # otras))
                           [0..<contadorFilas st] [] of
               Rechazado a \<Rightarrow> (alert a st, Devuelve False)
             | Interrumpido \<Rightarrow> (st, TypeError)
             | Completo detalles \<Rightarrow> (guardarYEnviar detalles st, Devuelve True)))"

section \<open>\<open>EntregaBienes\<close>: validation at submit\<close>

definition procesarFila_bienes :: "fila list \<Rightarrow> nat \<Rightarrow> paso" where
  "procesarFila_bienes tbody i =
     (case getFila tbody i of
        None \<Rightarrow> Continuar
      | Some fila \<Rightarrow>
          let inputSerie = getElemento tbody Serie i;
              selectEstado = getElemento tbody EstadoFisico i
          in case getElemento tbody Activo i of
               None \<Rightarrow> Rechazar SeleccioneActivo
             | Some selectActivo \<Rightarrow>
                 if el_value selectActivo = [] then Rechazar SeleccioneActivo
                 else
                   (case getElemento tbody Cantidad i of
                      None \<Rightarrow> Rechazar CantidadInvalida
                    | Some inputCantidad \<Rightarrow>
                        if el_value inputCantidad = [] \<or>
                           menor_igual (parseInt (el_value inputCantidad)) (Fin 0)
                        then Rechazar CantidadInvalida
                        else Agregar [(''equipo_id'', JNumero (parseInt (el_value selectActivo))),
                                      (''cantidad'', JNumero (parseInt (el_value inputCantidad))),
                                      (''numero_serie'', valor_o_null inputSerie),
                                      (''estado_fisico'', valor_o_null selectEstado)]))"

definition validarYEnviarFormulario_bienes :: "formulario \<Rightarrow> formulario \<times> retorno" where
  "validarYEnviarFormulario_bienes st =
     (case cuerpo st of
        None \<Rightarrow> (alert DebeAgregarBien st, Devuelve False)
      | Some [] \<Rightarrow> (alert DebeAgregarBien st, Devuelve False)
      | Some (primera # otras) \<Rightarrow>
          if celdas primera = 1 then (alert DebeAgregarBien st, Devuelve False)
          else
            (case recorrer (procesarFila_bienes (primera # otras)) [0..<contadorFilas st] [] of
               Rechazado a \<Rightarrow> (alert a st, Devuelve False)
             | Interrumpido \<Rightarrow> (st, TypeError)
             | Completo detalles \<Rightarrow> (guardarYEnviar detalles st, Devuelve True)))"

section \<open>Notions used to state the properties\<close>

text \<open>The row ids of the table are strictly increasing in document order and all below
  the counter.\<close>

definition ids_en_orden :: "entregaArticulos \<Rightarrow> bool" where
  "ids_en_orden st = sorted_wrt (<) (ids_tabla st @ [contadorFilas st])"

text \<open>The ids given to the rows created along a sequence of events: after each event, the
  ids in the table that were not there before it.\<close>

fun ids_asignados :: "accion list \<Rightarrow> entregaArticulos \<Rightarrow> nat list" where
  "ids_asignados [] st = []"
| "ids_asignados (a # resto) st =
     filter (\<lambda>n. n \<notin> set (ids_tabla st)) (ids_tabla (ejecutar a st)) @
     ids_asignados resto (ejecutar a st)"

text \<open>An event whose response, if it has one, holds only objects as lines.\<close>

fun lineas_son_objetos :: "accion \<Rightarrow> bool" where
  "lineas_son_objetos (SeleccionarSolicitud (Cumplida data)) =
     (case r_articulos data of None \<Rightarrow> True | Some lineas \<Rightarrow> list_all (\<lambda>l. l \<noteq> None) lineas)"
| "lineas_son_objetos a = True"

text \<open>No event of the sequence lowers the counter.\<close>

fun sin_reinicio :: "accion list \<Rightarrow> entregaArticulos \<Rightarrow> bool" where
  "sin_reinicio [] st = True"
| "sin_reinicio (a # resto) st =
     (contadorFilas st \<le> contadorFilas (ejecutar a st) \<and> sin_reinicio resto (ejecutar a st))"

text \<open>From one state to a later one the counter has not gone down and every id of the
  later table was in the earlier table or is at least the earlier counter.\<close>

definition avanza :: "entregaArticulos \<Rightarrow> entregaArticulos \<Rightarrow> bool" where
  "avanza s t =
     (contadorFilas s \<le> contadorFilas t \<and>
      list_all (\<lambda>n. n \<in> set (ids_tabla s) \<or> contadorFilas s \<le> n) (ids_tabla t))"

text \<open>A row index whose row, quantity input and, when a request is selected, hidden
  article and request-line inputs are all in the document.\<close>

definition fila_completa :: "bool \<Rightarrow> fila list \<Rightarrow> nat \<Rightarrow> bool" where
  "fila_completa modoSolicitud tbody i =
     (getFila tbody i \<noteq> None \<and> getElemento tbody Cantidad i \<noteq> None \<and>
      (if modoSolicitud
       then getElemento tbody Articulo i \<noteq> None \<and> getElemento tbody DetalleSolicitud i \<noteq> None
       else True))"

subsection \<open>Sample pages\<close>

text \<open>The page of the item-delivery form as it is first shown: every element present, the
  table with the empty-state row, nothing selected.\<close>

definition pagina_inicial :: entregaArticulos where
  "pagina_inicial =
     \<lparr>contadorFilas = 0, cuerpo = Some [fila_vacia], detallesJson = Some [], alertas = [],
      enviados = 0, articulosDisponibles = [], esSolicitud = False,
      btnAgregarArticulo = Some False, infoSolicitud = Some True, datosSolicitud = Some [],
      id_bodega_origen = Some []\<rparr>"

text \<open>A row as \<open>agregarFilaSolicitud\<close> builds it, with the quantity the user typed.\<close>

definition fila_de_solicitud ::
  "nat \<Rightarrow> string \<Rightarrow> string \<Rightarrow> string \<Rightarrow> string \<Rightarrow> string \<Rightarrow> fila" where
  "fila_de_solicitud n art det q pend stock =
     \<lparr>fila_id = Some n, celdas = 5,
      elementos = [((Articulo, n), Input art None None),
                   ((DetalleSolicitud, n), Input det None None),
                   ((Cantidad, n), Input q (Some pend) (Some stock)),
                   ((Lote, n), Input [] None None)]\<rparr>"

text \<open>A row as \<open>agregarArticulo\<close> builds it, with the article chosen (the second option,
  with its stock attribute) and the quantity and lot typed.\<close>

definition fila_manual :: "nat \<Rightarrow> string \<Rightarrow> string option \<Rightarrow> string \<Rightarrow> string \<Rightarrow> fila" where
  "fila_manual n art stock q l =
     \<lparr>fila_id = Some n, celdas = 5,
      elementos = [((Articulo, n),
                    Select [\<lparr>op_value = [], op_data_stock = None\<rparr>,
                            \<lparr>op_value = art, op_data_stock = stock\<rparr>] 1),
                   ((Cantidad, n), Input q None None),
                   ((Lote, n), Input l None None)]\<rparr>"

text \<open>The page with manual rows, and the page after a request was loaded.\<close>

definition pagina_manual :: "fila list \<Rightarrow> nat \<Rightarrow> entregaArticulos" where
  "pagina_manual tbody n = pagina_inicial\<lparr>contadorFilas := n, cuerpo := Some tbody\<rparr>"

definition pagina_solicitud :: "fila list \<Rightarrow> nat \<Rightarrow> entregaArticulos" where
  "pagina_solicitud tbody n =
     pagina_inicial\<lparr>contadorFilas := n, cuerpo := Some tbody, esSolicitud := True,
                     btnAgregarArticulo := Some True, infoSolicitud := Some False\<rparr>"

text \<open>A row of a request whose quantity input is not in the document.\<close>

definition fila_sin_cantidad :: "nat \<Rightarrow> string \<Rightarrow> string \<Rightarrow> fila" where
  "fila_sin_cantidad n art det =
     \<lparr>fila_id = Some n, celdas = 5,
      elementos = [((Articulo, n), Input art None None),
                   ((DetalleSolicitud, n), Input det None None),
                   ((Lote, n), Input [] None None)]\<rparr>"

text \<open>A line of a response (article id, pending quantity, stock, id of the line) and a
  successful response with given lines.\<close>

definition linea_ejemplo :: "rat \<Rightarrow> rat \<Rightarrow> rat \<Rightarrow> rat \<Rightarrow> articulo_solicitud" where
  "linea_ejemplo art pend stock det =
     \<lparr>r_articulo_id = Numero (Fin art), r_articulo_codigo = Cadena ''A-1'',
      r_articulo_nombre = Cadena ''Papel'', r_unidad_medida = Cadena ''u'',
      r_cantidad_pendiente = Numero (Fin pend), r_stock_actual = Numero (Fin stock),
      r_detalle_solicitud_id = Numero (Fin det)\<rparr>"

definition respuesta_ejemplo :: "articulo_solicitud option list \<Rightarrow> respuesta" where
  "respuesta_ejemplo lineas =
     \<lparr>r_success = Booleano True,
      r_solicitud = Some \<lparr>s_numero = Cadena ''S-1'', s_solicitante = Cadena ''Ana'',
                          s_departamento = Cadena ''D'', s_motivo = Undefined,
                          s_bodega_origen_id = Undefined\<rparr>,
      r_articulos = Some lineas, r_error = Undefined, r_message = Undefined\<rparr>"

text \<open>A row of the goods form as \<open>agregarBien\<close> builds it, with the asset chosen and the
  quantity typed; no serial number, no condition chosen.\<close>

definition fila_bien :: "nat \<Rightarrow> string \<Rightarrow> string \<Rightarrow> fila" where
  "fila_bien n act q =
     \<lparr>fila_id = Some n, celdas = 5,
      elementos = [((Activo, n),
                    Select [\<lparr>op_value = [], op_data_stock = None\<rparr>,
                            \<lparr>op_value = act, op_data_stock = None\<rparr>] 1),
                   ((Cantidad, n), Input q None None),
                   ((Serie, n), Input [] None None),
                   ((EstadoFisico, n),
                    Select [\<lparr>op_value = [], op_data_stock = None\<rparr>,
                            \<lparr>op_value = ''EXCELENTE'', op_data_stock = None\<rparr>,
                            \<lparr>op_value = ''BUENO'', op_data_stock = None\<rparr>,
                            \<lparr>op_value = ''REGULAR'', op_data_stock = None\<rparr>,
                            \<lparr>op_value = ''MALO'', op_data_stock = None\<rparr>] 0)]\<rparr>"

definition pagina_bienes :: "fila list \<Rightarrow> nat \<Rightarrow> formulario" where
  "pagina_bienes tbody n =
     \<lparr>contadorFilas = n, cuerpo = Some tbody, detallesJson = Some [], alertas = [],
      enviados = 0\<rparr>"

section \<open>Properties\<close>

subsection \<open>Escaping\<close>

lemma no_truthy_iff:
  "\<not> truthy v \<longleftrightarrow>
     v \<in> {Null, Undefined, Cadena [], Numero (Fin 0), Booleano False, Numero NaN}"
  by (cases v) auto

text \<open>
  C8: for each of the falsy inputs \<open>null\<close>, \<open>undefined\<close>, the empty string, \<open>0\<close>,
  \<open>false\<close> and \<open>NaN\<close>, \<open>escapeHtml\<close> returns the empty string; the number \<open>0\<close> in
  particular is rendered as empty text and not as the character \<open>0\<close>.
\<close>

theorem escapeHtml_falsy:
  assumes "v \<in> {Null, Undefined, Cadena [], Numero (Fin 0), Booleano False, Numero NaN}"
  shows "\<not> truthy v \<and> escapeHtml v = []"
  using assms by (auto simp: escapeHtml_def)

theorem escapeHtml_falsy_witness:
  "Numero (Fin 0) \<in> {Null, Undefined, Cadena [], Numero (Fin 0), Booleano False, Numero NaN}
   \<and> escapeHtml (Numero (Fin 0)) = [] \<and> toString (Numero (Fin 0)) = ''0''"
proof -
  have h: "Numero (Fin 0) \<in> {Null, Undefined, Cadena [], Numero (Fin 0), Booleano False, Numero NaN}"
    by simp
  have "toString (Numero (Fin 0)) = ''0''" by code_simp
  with h escapeHtml_falsy [OF h] show ?thesis by simp
qed

lemma escapeHtml_script: "escapeHtml (Cadena ''<script>'') = ''&lt;script&gt;''"
  by code_simp

text \<open>
  C2: the request metadata is not escaped. For a request whose \<open>solicitante\<close> is
  \<open><script>\<close>, \<open>mostrarInfoSolicitud\<close> writes the four paragraphs with that text as it
  is, where \<open>escapeHtml\<close> would have given \<open>&lt;script&gt;\<close>.
\<close>

theorem mostrarInfoSolicitud_sin_escapar:
  "mostrarInfoSolicitud
     (Some \<lparr>s_numero = Cadena ''S-1'', s_solicitante = Cadena ''<script>'',
            s_departamento = Cadena ''D'', s_motivo = Undefined,
            s_bodega_origen_id = Undefined\<rparr>)
     pagina_inicial
   = Normal (pagina_inicial
       \<lparr>datosSolicitud := Some
          (sangria 12 @ parrafo ''mb-1'' (''N'' @ [CHR 0xC3, CHR 0xBA] @ ''mero'') ''S-1'' @
           sangria 12 @ parrafo ''mb-1'' ''Solicitante'' ''<script>'' @
           sangria 12 @ parrafo ''mb-1'' ''Departamento'' ''D'' @
           sangria 12 @ parrafo ''mb-0'' ''Motivo'' ''N/A'' @
           sangria 8),
        infoSolicitud := Some False\<rparr>)
   \<and> parrafo ''mb-1'' ''Solicitante'' ''<script>''
       = ''<p class='' @ comillas ''mb-1'' @ ''><strong>Solicitante:</strong> <script></p>''
   \<and> escapeHtml (Cadena ''<script>'') = ''&lt;script&gt;''"
  by (simp add: mostrarInfoSolicitud_def pagina_inicial_def plantilla_solicitud_def
                parrafo_def comillas_def escapeHtml_script)

subsection \<open>Quantity bounds of a row of a request\<close>

lemma validarCantidadSolicitud_8: 
  "validarCantidadSolicitud (Input ''8'' (Some ''10'') (Some ''7''))
     = Invalida (ExcedeStockSolicitud (Fin 8) (Fin 7))"
  by code_simp

lemma validarCantidadSolicitud_10: 
  "validarCantidadSolicitud (Input ''10'' (Some ''10'') (Some ''7''))
     = Invalida (ExcedeStockSolicitud (Fin 10) (Fin 7))"
  by code_simp

lemma validarCantidadSolicitud_7: 
  "validarCantidadSolicitud (Input ''7'' (Some ''10'') (Some ''7'')) = Valida"
  by code_simp

text \<open>The sample row is the row the code builds for a line with 10 pending and 7 in
  stock.\<close>

lemma fila_de_solicitud_construida:
  "cuerpo (estado_de (agregarFilaSolicitud
             (Some \<lparr>r_articulo_id = Numero (Fin 4), r_articulo_codigo = Cadena ''A-1'',
                    r_articulo_nombre = Cadena ''Papel'', r_unidad_medida = Cadena ''u'',
                    r_cantidad_pendiente = Numero (Fin 10), r_stock_actual = Numero (Fin 7),
                    r_detalle_solicitud_id = Numero (Fin 77)\<rparr>)
             (pagina_inicial\<lparr>cuerpo := Some []\<rparr>)))
   = Some [fila_de_solicitud 0 ''4'' ''77'' ''10'' ''10'' ''7'']"
  by code_simp

lemma procesarFila_8:
  "procesarFila True [fila_de_solicitud 0 ''4'' ''77'' ''8'' ''10'' ''7''] 0
     = Rechazar (ExcedeStockSolicitud (Fin 8) (Fin 7))"
  by code_simp

lemma procesarFila_10:
  "procesarFila True [fila_de_solicitud 0 ''4'' ''77'' ''10'' ''10'' ''7''] 0
     = Rechazar (ExcedeStockSolicitud (Fin 10) (Fin 7))"
  by code_simp

lemma procesarFila_7:
  "procesarFila True [fila_de_solicitud 0 ''4'' ''77'' ''7'' ''10'' ''7''] 0
     = Agregar [(''articulo_id'', JNumero (Fin 4)), (''cantidad'', JNumero (Fin 7)),
                (''lote'', JNull), (''detalle_solicitud_id'', JNumero (Fin 77))]"
  by code_simp

text \<open>
  C1: at submit, a row of a request that has its inputs is rejected with the message about
  the pending quantity when the quantity exceeds \<open>data-pendiente\<close>; otherwise it is
  rejected with the message about the stock when the quantity exceeds \<open>data-stock\<close>;
  otherwise the check passes. Both limits are the attributes stored on the quantity input
  when the row was built. With 10 pending and 7 in stock, 8 and 10 are rejected for the
  stock and 7 passes.
\<close>

theorem validarCantidadSolicitud_pendiente_y_stock:
  assumes "getFila tbody i = Some f"
    and "getElemento tbody Cantidad i = Some inputCantidad"
    and "getElemento tbody Articulo i = Some inputArticulo"
    and "getElemento tbody DetalleSolicitud i = Some inputDetalle"
  shows
    "(mayor (parseFloat (el_value inputCantidad))
            (parseFloat_atributo (data_pendiente inputCantidad)) \<longrightarrow>
        procesarFila True tbody i =
          Rechazar (ExcedePendiente (parseFloat (el_value inputCantidad))
                      (parseFloat_atributo (data_pendiente inputCantidad)))) \<and>
     (\<not> mayor (parseFloat (el_value inputCantidad))
              (parseFloat_atributo (data_pendiente inputCantidad)) \<and>
      mayor (parseFloat (el_value inputCantidad))
            (parseFloat_atributo (data_stock inputCantidad)) \<longrightarrow>
        procesarFila True tbody i =
          Rechazar (ExcedeStockSolicitud (parseFloat (el_value inputCantidad))
                      (parseFloat_atributo (data_stock inputCantidad)))) \<and>
     (\<not> mayor (parseFloat (el_value inputCantidad))
              (parseFloat_atributo (data_pendiente inputCantidad)) \<and>
      \<not> mayor (parseFloat (el_value inputCantidad))
              (parseFloat_atributo (data_stock inputCantidad)) \<longrightarrow>
        validarCantidadSolicitud inputCantidad = Valida \<and>
        procesarFila True tbody i =
          construirDetalle (parseInt (el_value inputArticulo))
            (Some (parseInt (el_value inputDetalle))) inputCantidad
            (getElemento tbody Lote i)) \<and>
     validarCantidadSolicitud (Input ''8'' (Some ''10'') (Some ''7''))
       = Invalida (ExcedeStockSolicitud (Fin 8) (Fin 7)) \<and>
     validarCantidadSolicitud (Input ''10'' (Some ''10'') (Some ''7''))
       = Invalida (ExcedeStockSolicitud (Fin 10) (Fin 7)) \<and>
     validarCantidadSolicitud (Input ''7'' (Some ''10'') (Some ''7'')) = Valida \<and>
     procesarFila True [fila_de_solicitud 0 ''4'' ''77'' ''8'' ''10'' ''7''] 0
       = Rechazar (ExcedeStockSolicitud (Fin 8) (Fin 7)) \<and>
     procesarFila True [fila_de_solicitud 0 ''4'' ''77'' ''10'' ''10'' ''7''] 0
       = Rechazar (ExcedeStockSolicitud (Fin 10) (Fin 7)) \<and>
     procesarFila True [fila_de_solicitud 0 ''4'' ''77'' ''7'' ''10'' ''7''] 0
       = Agregar [(''articulo_id'', JNumero (Fin 4)), (''cantidad'', JNumero (Fin 7)),
                  (''lote'', JNull), (''detalle_solicitud_id'', JNumero (Fin 77))]"
proof -
  have g1:
    "mayor (parseFloat (el_value inputCantidad))
           (parseFloat_atributo (data_pendiente inputCantidad)) \<longrightarrow>
        procesarFila True tbody i =
          Rechazar (ExcedePendiente (parseFloat (el_value inputCantidad))
                      (parseFloat_atributo (data_pendiente inputCantidad)))"
    using assms by (simp add: procesarFila_def validarCantidadSolicitud_def Let_def)
  have g2:
    "\<not> mayor (parseFloat (el_value inputCantidad))
             (parseFloat_atributo (data_pendiente inputCantidad)) \<and>
     mayor (parseFloat (el_value inputCantidad))
           (parseFloat_atributo (data_stock inputCantidad)) \<longrightarrow>
        procesarFila True tbody i =
          Rechazar (ExcedeStockSolicitud (parseFloat (el_value inputCantidad))
                      (parseFloat_atributo (data_stock inputCantidad)))"
    using assms by (simp add: procesarFila_def validarCantidadSolicitud_def Let_def)
  have g3:
    "\<not> mayor (parseFloat (el_value inputCantidad))
             (parseFloat_atributo (data_pendiente inputCantidad)) \<and>
     \<not> mayor (parseFloat (el_value inputCantidad))
             (parseFloat_atributo (data_stock inputCantidad)) \<longrightarrow>
        validarCantidadSolicitud inputCantidad = Valida \<and>
        procesarFila True tbody i =
          construirDetalle (parseInt (el_value inputArticulo))
            (Some (parseInt (el_value inputDetalle))) inputCantidad
            (getElemento tbody Lote i)"
    using assms by (simp add: procesarFila_def validarCantidadSolicitud_def Let_def)
  from g1 g2 g3 validarCantidadSolicitud_8 validarCantidadSolicitud_10
    validarCantidadSolicitud_7 procesarFila_8 procesarFila_10 procesarFila_7
  show ?thesis by (intro conjI)
qed

theorem validarCantidadSolicitud_pendiente_y_stock_witness:
  "getFila [fila_de_solicitud 0 ''4'' ''77'' ''10'' ''10'' ''7''] 0
     = Some (fila_de_solicitud 0 ''4'' ''77'' ''10'' ''10'' ''7'') \<and>
   getElemento [fila_de_solicitud 0 ''4'' ''77'' ''10'' ''10'' ''7''] Cantidad 0
     = Some (Input ''10'' (Some ''10'') (Some ''7'')) \<and>
   getElemento [fila_de_solicitud 0 ''4'' ''77'' ''10'' ''10'' ''7''] Articulo 0
     = Some (Input ''4'' None None) \<and>
   getElemento [fila_de_solicitud 0 ''4'' ''77'' ''10'' ''10'' ''7''] DetalleSolicitud 0
     = Some (Input ''77'' None None) \<and>
   \<not> mayor (parseFloat ''10'') (parseFloat_atributo (Some ''10'')) \<and>
   mayor (parseFloat ''10'') (parseFloat_atributo (Some ''7'')) \<and>
   procesarFila True [fila_de_solicitud 0 ''4'' ''77'' ''10'' ''10'' ''7''] 0
     = Rechazar (ExcedeStockSolicitud (Fin 10) (Fin 7))"
proof -
  let ?tb = "[fila_de_solicitud 0 ''4'' ''77'' ''10'' ''10'' ''7'']"
  have h1: "getFila ?tb 0 = Some (fila_de_solicitud 0 ''4'' ''77'' ''10'' ''10'' ''7'')"
    by (simp add: getFila_def fila_de_solicitud_def)
  have h2: "getElemento ?tb Cantidad 0 = Some (Input ''10'' (Some ''10'') (Some ''7''))"
    by (simp add: getElemento_def fila_de_solicitud_def)
  have h3: "getElemento ?tb Articulo 0 = Some (Input ''4'' None None)"
    by (simp add: getElemento_def fila_de_solicitud_def)
  have h4: "getElemento ?tb DetalleSolicitud 0 = Some (Input ''77'' None None)"
    by (simp add: getElemento_def fila_de_solicitud_def)
  have p: "parseFloat ''10'' = Fin 10" "parseFloat_atributo (Some ''10'') = Fin 10"
    "parseFloat_atributo (Some ''7'') = Fin 7"
    by code_simp+
  have m: "\<not> mayor (parseFloat ''10'') (parseFloat_atributo (Some ''10''))"
    "mayor (parseFloat ''10'') (parseFloat_atributo (Some ''7''))"
    by (simp_all add: p)
  note t = validarCantidadSolicitud_pendiente_y_stock [OF h1 h2 h3 h4]
  have "procesarFila True ?tb 0 = Rechazar (ExcedeStockSolicitud (Fin 10) (Fin 7))"
    using t [THEN conjunct2, THEN conjunct1] p by simp
  with h1 h2 h3 h4 m show ?thesis by (intro conjI)
qed

subsection \<open>A fetch that fails\<close>

text \<open>
  C4: when the fetch of the lines of a request rejects, or the response arrives with a
  falsy \<open>success\<close>, one message is shown and nothing else changes: the rows and the
  counter are as before and \<open>esSolicitud\<close> keeps its value.
\<close>

theorem cargarArticulosSolicitud_fallo:
  assumes "p = Rechazada \<or> (\<exists>data. p = Cumplida data \<and> \<not> truthy (r_success data))"
  shows "\<exists>a. cargarArticulosSolicitud p st = st\<lparr>alertas := alertas st @ [a]\<rparr> \<and>
              alertas (cargarArticulosSolicitud p st) = alertas st @ [a] \<and>
              cuerpo (cargarArticulosSolicitud p st) = cuerpo st \<and>
              contadorFilas (cargarArticulosSolicitud p st) = contadorFilas st \<and>
              esSolicitud (cargarArticulosSolicitud p st) = esSolicitud st"
  using assms by (auto simp: cargarArticulosSolicitud_def alert_def)

theorem cargarArticulosSolicitud_fallo_witness:
  "(Cumplida \<lparr>r_success = Booleano False, r_solicitud = None, r_articulos = None,
              r_error = Cadena ''Solicitud no encontrada'', r_message = Undefined\<rparr> = Rechazada \<or>
    (\<exists>data. Cumplida \<lparr>r_success = Booleano False, r_solicitud = None, r_articulos = None,
                r_error = Cadena ''Solicitud no encontrada'', r_message = Undefined\<rparr>
              = Cumplida data \<and> \<not> truthy (r_success data))) \<and>
   cargarArticulosSolicitud
     (Cumplida \<lparr>r_success = Booleano False, r_solicitud = None, r_articulos = None,
                r_error = Cadena ''Solicitud no encontrada'', r_message = Undefined\<rparr>)
     (agregarArticulo pagina_inicial)
   = (agregarArticulo pagina_inicial)
       \<lparr>alertas := [ErrorCargarSolicitud ''Solicitud no encontrada'']\<rparr>"
proof -
  let ?d = "\<lparr>r_success = Booleano False, r_solicitud = None, r_articulos = None,
              r_error = Cadena ''Solicitud no encontrada'', r_message = Undefined\<rparr>"
  have h: "Cumplida ?d = Rechazada \<or> (\<exists>data. Cumplida ?d = Cumplida data \<and> \<not> truthy (r_success data))"
    by simp
  from cargarArticulosSolicitud_fallo [OF h, of "agregarArticulo pagina_inicial"]
  obtain a where
    a: "cargarArticulosSolicitud (Cumplida ?d) (agregarArticulo pagina_inicial)
          = (agregarArticulo pagina_inicial)\<lparr>alertas := alertas (agregarArticulo pagina_inicial) @ [a]\<rparr>"
    by blast
  have "cargarArticulosSolicitud (Cumplida ?d) (agregarArticulo pagina_inicial)
          = (agregarArticulo pagina_inicial)\<lparr>alertas := [ErrorCargarSolicitud ''Solicitud no encontrada'']\<rparr>"
    by (simp add: cargarArticulosSolicitud_def alert_def agregarArticulo_def pagina_inicial_def
                  fila_vacia_def Let_def)
  with h a show ?thesis by simp
qed

subsection \<open>Row ids\<close>

lemma ids_filas_simps [simp]:
  "ids_filas [] = []"
  "ids_filas (f # fs) = (case fila_id f of None \<Rightarrow> [] | Some n \<Rightarrow> [n]) @ ids_filas fs"
  "ids_filas (xs @ ys) = ids_filas xs @ ids_filas ys"
  by (simp_all add: ids_filas_def)

lemma ids_filas_quitar: "ids_filas (quitar n tb) = remove1 n (ids_filas tb)"
  by (induction tb) (auto split: option.splits)

lemma in_remove1: "n \<in> set (remove1 k xs) \<Longrightarrow> n \<in> set xs"
  by (metis notin_set_remove1)

lemma sorted_remove1: "sorted_wrt (<) (xs @ [c::nat]) \<Longrightarrow> sorted_wrt (<) (remove1 n xs @ [c])"
proof (induction xs)
  case Nil
  then show ?case by simp
next
  case (Cons x xs)
  then show ?case
    by (auto simp: sorted_wrt_append dest: notin_set_remove1)
qed

text \<open>States with the same table and counter are alike for what follows.\<close>

lemma ids_por_tabla: "cuerpo a = cuerpo b \<Longrightarrow> ids_tabla a = ids_tabla b"
  by (simp add: ids_tabla_def)

lemma orden_por_tabla:
  "cuerpo a = cuerpo b \<Longrightarrow> contadorFilas a = contadorFilas b \<Longrightarrow>
     ids_en_orden a = ids_en_orden b"
  by (simp add: ids_en_orden_def ids_tabla_def)

lemma avanza_por_tabla:
  "cuerpo a = cuerpo b \<Longrightarrow> contadorFilas a = contadorFilas b \<Longrightarrow> avanza s a = avanza s b"
  "cuerpo a = cuerpo b \<Longrightarrow> contadorFilas a = contadorFilas b \<Longrightarrow> avanza a t = avanza b t"
  by (simp_all add: avanza_def ids_tabla_def)

lemma avanza_refl: "avanza s s"
  by (simp add: avanza_def list_all_iff)

lemma avanza_trans: "avanza s t \<Longrightarrow> avanza t u \<Longrightarrow> avanza s u"
  by (fastforce simp: avanza_def list_all_iff)

lemma avanza_ids:
  "avanza s t \<Longrightarrow> n \<in> set (ids_tabla t) \<Longrightarrow> n \<in> set (ids_tabla s) \<or> contadorFilas s \<le> n"
  by (auto simp: avanza_def list_all_iff)

subsubsection \<open>Adding and removing rows\<close>

lemma orden_agregarArticulo: "ids_en_orden st \<Longrightarrow> ids_en_orden (agregarArticulo st)"
  by (cases "cuerpo st")
     (auto simp: ids_en_orden_def agregarArticulo_def Let_def ids_tabla_def sorted_wrt_append)

lemma avanza_agregarArticulo: "avanza st (agregarArticulo st)"
  by (cases "cuerpo st")
     (auto simp: avanza_def agregarArticulo_def Let_def ids_tabla_def list_all_iff)

lemma orden_agregarFilaSolicitud:
  "ids_en_orden st \<Longrightarrow> ids_en_orden (estado_de (agregarFilaSolicitud (Some a) st))"
  by (cases "cuerpo st")
     (auto simp: ids_en_orden_def agregarFilaSolicitud_def Let_def ids_tabla_def
                 sorted_wrt_append)

lemma agregarFilaSolicitud_Some_Normal:
  "\<exists>s. agregarFilaSolicitud (Some a) st = Normal s"
  by (cases "cuerpo st") (auto simp: agregarFilaSolicitud_def Let_def)

lemma avanza_agregarFilaSolicitud: "avanza st (estado_de (agregarFilaSolicitud l st))"
  by (cases "cuerpo st"; cases l)
     (auto simp: avanza_def agregarFilaSolicitud_def Let_def ids_tabla_def list_all_iff)

lemma orden_agregarFilas:
  "list_all (\<lambda>l. l \<noteq> None) ls \<Longrightarrow> ids_en_orden st \<Longrightarrow>
     ids_en_orden (estado_de (agregarFilas ls st))"
proof (induction ls arbitrary: st)
  case Nil
  then show ?case by simp
next
  case (Cons l ls)
  from Cons.prems(1) obtain a where l: "l = Some a" and r: "list_all (\<lambda>l. l \<noteq> None) ls"
    by auto
  obtain s where n: "agregarFilaSolicitud (Some a) st = Normal s"
    using agregarFilaSolicitud_Some_Normal by blast
  from orden_agregarFilaSolicitud [OF Cons.prems(2), of a] n have "ids_en_orden s" by simp
  from Cons.IH [OF r this] have "ids_en_orden (estado_de (agregarFilas ls s))" .
  with l n show ?case by simp
qed

lemma avanza_agregarFilas: "avanza st (estado_de (agregarFilas ls st))"
proof (induction ls arbitrary: st)
  case Nil
  then show ?case by (simp add: avanza_refl)
next
  case (Cons l ls)
  show ?case
  proof (cases "agregarFilaSolicitud l st")
    case (Lanza s)
    with avanza_agregarFilaSolicitud [of st l] show ?thesis by simp
  next
    case (Normal s)
    with avanza_agregarFilaSolicitud [of st l] have "avanza st s" by simp
    moreover have "avanza s (estado_de (agregarFilas ls s))" by (rule Cons.IH)
    ultimately have "avanza st (estado_de (agregarFilas ls s))" by (rule avanza_trans)
    with Normal show ?thesis by simp
  qed
qed

text \<open>\<open>limpiarTabla\<close> leaves the state as it is (no table body) or empties the table and
  puts the counter to 0.\<close>

lemma limpiarTabla_casos:
  "limpiarTabla st = st \<or>
   (contadorFilas (limpiarTabla st) = 0 \<and> ids_tabla (limpiarTabla st) = [])"
  by (cases "cuerpo st") (auto simp: limpiarTabla_def ids_tabla_def fila_vacia_def)

lemma orden_limpiarTabla: "ids_en_orden st \<Longrightarrow> ids_en_orden (limpiarTabla st)"
  by (cases "cuerpo st")
     (auto simp: ids_en_orden_def limpiarTabla_def fila_vacia_def ids_tabla_def)

lemma orden_eliminarFila: "ids_en_orden st \<Longrightarrow> ids_en_orden (eliminarFila n st)"
  by (cases "cuerpo st")
     (auto simp: ids_en_orden_def eliminarFila_def Let_def limpiarTabla_def fila_vacia_def
                 ids_tabla_def ids_filas_quitar sorted_remove1)

lemma eliminarFila_casos:
  "avanza st (eliminarFila k st) \<or>
   (contadorFilas (eliminarFila k st) = 0 \<and> ids_tabla (eliminarFila k st) = [])"
  by (cases "cuerpo st")
     (auto simp: avanza_def eliminarFila_def Let_def limpiarTabla_def fila_vacia_def
                 ids_tabla_def ids_filas_quitar list_all_iff dest: in_remove1)

subsubsection \<open>Selecting and clearing a request\<close>

lemma orden_alert [simp]: "ids_en_orden (alert a st) = ids_en_orden st"
  by (simp add: ids_en_orden_def alert_def ids_tabla_def)

lemma avanza_alert [simp]: "avanza s (alert a t) = avanza s t"
  by (simp add: avanza_def alert_def ids_tabla_def)

lemma mostrarInfoSolicitud_tabla:
  "cuerpo (estado_de (mostrarInfoSolicitud sol st)) = cuerpo st \<and>
   contadorFilas (estado_de (mostrarInfoSolicitud sol st)) = contadorFilas st"
  by (auto simp: mostrarInfoSolicitud_def split: option.splits)

lemma orden_cargarArticulosEnTabla:
  assumes "ids_en_orden st"
    and "case arts of None \<Rightarrow> True | Some ls \<Rightarrow> list_all (\<lambda>l. l \<noteq> None) ls"
  shows "ids_en_orden (estado_de (cargarArticulosEnTabla arts st))"
proof (cases "cuerpo st")
  case None
  with assms(1) show ?thesis by (simp add: cargarArticulosEnTabla_def)
next
  case (Some tb)
  have v: "ids_en_orden (st\<lparr>cuerpo := Some []\<rparr>)"
    using assms(1) by (auto simp: ids_en_orden_def ids_tabla_def)
  show ?thesis
  proof (cases arts)
    case None
    with Some v show ?thesis by (simp add: cargarArticulosEnTabla_def)
  next
    case s: (Some ls)
    show ?thesis
    proof (cases "length ls = 0")
      case True
      with s Some assms(1) show ?thesis
        by (auto simp: cargarArticulosEnTabla_def ids_en_orden_def ids_tabla_def fila_vacia_def)
    next
      case False
      from s assms(2) have "list_all (\<lambda>l. l \<noteq> None) ls" by simp
      from orden_agregarFilas [OF this v] False s Some show ?thesis
        by (simp add: cargarArticulosEnTabla_def)
    qed
  qed
qed

lemma avanza_cargarArticulosEnTabla: "avanza st (estado_de (cargarArticulosEnTabla arts st))"
proof (cases "cuerpo st")
  case None
  then show ?thesis by (simp add: cargarArticulosEnTabla_def avanza_refl)
next
  case (Some tb)
  have v: "avanza st (st\<lparr>cuerpo := Some []\<rparr>)"
    by (simp add: avanza_def ids_tabla_def)
  show ?thesis
  proof (cases arts)
    case None
    with Some v show ?thesis by (simp add: cargarArticulosEnTabla_def)
  next
    case s: (Some ls)
    show ?thesis
    proof (cases "length ls = 0")
      case True
      with s Some show ?thesis
        by (simp add: cargarArticulosEnTabla_def avanza_def ids_tabla_def fila_vacia_def)
    next
      case False
      from v avanza_agregarFilas [of "st\<lparr>cuerpo := Some []\<rparr>" ls]
      have "avanza st (estado_de (agregarFilas ls (st\<lparr>cuerpo := Some []\<rparr>)))"
        by (rule avanza_trans)
      with False s Some show ?thesis by (simp add: cargarArticulosEnTabla_def)
    qed
  qed
qed

text \<open>In the branch of a successful response the table changes at most through
  \<open>cargarArticulosEnTabla\<close>.\<close>

lemma solicitud_cargada_casos:
  "\<exists>s1 s2. cuerpo s1 = cuerpo st \<and> contadorFilas s1 = contadorFilas st \<and>
     (s2 = s1 \<or> s2 = estado_de (cargarArticulosEnTabla (r_articulos data) s1)) \<and>
     cuerpo (estado_de (solicitud_cargada data st)) = cuerpo s2 \<and>
     contadorFilas (estado_de (solicitud_cargada data st)) = contadorFilas s2"
proof (cases "mostrarInfoSolicitud (r_solicitud data) (st\<lparr>esSolicitud := True\<rparr>)")
  case (Lanza x)
  with mostrarInfoSolicitud_tabla [of "r_solicitud data" "st\<lparr>esSolicitud := True\<rparr>"]
  have t: "cuerpo x = cuerpo st" "contadorFilas x = contadorFilas st" by simp_all
  from Lanza have "estado_de (solicitud_cargada data st) = x"
    by (simp add: solicitud_cargada_def)
  with t show ?thesis by (intro exI [of _ x]) simp
next
  case (Normal x)
  with mostrarInfoSolicitud_tabla [of "r_solicitud data" "st\<lparr>esSolicitud := True\<rparr>"]
  have t: "cuerpo x = cuerpo st" "contadorFilas x = contadorFilas st" by simp_all
  have "cuerpo (estado_de (solicitud_cargada data st))
          = cuerpo (estado_de (cargarArticulosEnTabla (r_articulos data) x)) \<and>
        contadorFilas (estado_de (solicitud_cargada data st))
          = contadorFilas (estado_de (cargarArticulosEnTabla (r_articulos data) x))"
  proof (cases "cargarArticulosEnTabla (r_articulos data) x")
    case l: (Lanza y)
    with Normal show ?thesis by (simp add: solicitud_cargada_def)
  next
    case n: (Normal y)
    with Normal show ?thesis
      by (auto simp: solicitud_cargada_def Let_def split: option.splits)
  qed
  with t show ?thesis
    by (intro exI [of _ x] exI [of _ "estado_de (cargarArticulosEnTabla (r_articulos data) x)"])
       simp
qed

lemma orden_solicitud_cargada:
  assumes "ids_en_orden st"
    and "case r_articulos data of None \<Rightarrow> True | Some ls \<Rightarrow> list_all (\<lambda>l. l \<noteq> None) ls"
  shows "ids_en_orden (estado_de (solicitud_cargada data st))"
proof -
  from solicitud_cargada_casos [of st data] obtain s1 s2 where
    a: "cuerpo s1 = cuerpo st" "contadorFilas s1 = contadorFilas st"
    and b: "s2 = s1 \<or> s2 = estado_de (cargarArticulosEnTabla (r_articulos data) s1)"
    and c: "cuerpo (estado_de (solicitud_cargada data st)) = cuerpo s2"
           "contadorFilas (estado_de (solicitud_cargada data st)) = contadorFilas s2"
    by blast
  from a assms(1) have "ids_en_orden s1" using orden_por_tabla by blast
  with b assms(2) have "ids_en_orden s2" using orden_cargarArticulosEnTabla by blast
  with c show ?thesis using orden_por_tabla by blast
qed

lemma avanza_solicitud_cargada: "avanza st (estado_de (solicitud_cargada data st))"
proof -
  from solicitud_cargada_casos [of st data] obtain s1 s2 where
    a: "cuerpo s1 = cuerpo st" "contadorFilas s1 = contadorFilas st"
    and b: "s2 = s1 \<or> s2 = estado_de (cargarArticulosEnTabla (r_articulos data) s1)"
    and c: "cuerpo (estado_de (solicitud_cargada data st)) = cuerpo s2"
           "contadorFilas (estado_de (solicitud_cargada data st)) = contadorFilas s2"
    by blast
  from b have "avanza s1 s2" using avanza_refl avanza_cargarArticulosEnTabla by metis
  with a have "avanza st s2" using avanza_por_tabla(2) by blast
  with c show ?thesis using avanza_por_tabla(1) by blast
qed

lemma cargarArticulosSolicitud_estado:
  "cargarArticulosSolicitud p st = alert ErrorCargarGenerico st \<or>
   (\<exists>m. cargarArticulosSolicitud p st = alert m st) \<or>
   (\<exists>data. p = Cumplida data \<and>
      (cargarArticulosSolicitud p st = estado_de (solicitud_cargada data st) \<or>
       cargarArticulosSolicitud p st =
         alert ErrorCargarGenerico (estado_de (solicitud_cargada data st))))"
  by (auto simp: cargarArticulosSolicitud_def split: promesa.splits resultado.splits)

lemma orden_cargarArticulosSolicitud:
  assumes "ids_en_orden st" and "lineas_son_objetos (SeleccionarSolicitud p)"
  shows "ids_en_orden (cargarArticulosSolicitud p st)"
proof -
  have "ids_en_orden (estado_de (solicitud_cargada data st))" if "p = Cumplida data" for data
    using that assms by (simp add: orden_solicitud_cargada)
  with cargarArticulosSolicitud_estado [of p st] assms(1) show ?thesis
    by auto
qed

lemma avanza_cargarArticulosSolicitud: "avanza st (cargarArticulosSolicitud p st)"
  using cargarArticulosSolicitud_estado [of p st] avanza_solicitud_cargada avanza_refl
  by auto

lemma orden_limpiarArticulosSolicitud:
  "ids_en_orden st \<Longrightarrow> ids_en_orden (limpiarArticulosSolicitud st)"
proof -
  assume o: "ids_en_orden st"
  let ?s2 = "case infoSolicitud (st\<lparr>esSolicitud := False\<rparr>) of
               None \<Rightarrow> st\<lparr>esSolicitud := False\<rparr>
             | Some h \<Rightarrow> st\<lparr>esSolicitud := False, infoSolicitud := Some True\<rparr>"
  have "cuerpo ?s2 = cuerpo st" "contadorFilas ?s2 = contadorFilas st"
    by (simp_all split: option.splits)
  with o have "ids_en_orden ?s2" using orden_por_tabla by blast
  then have l: "ids_en_orden (limpiarTabla ?s2)" by (rule orden_limpiarTabla)
  have "cuerpo (limpiarArticulosSolicitud st) = cuerpo (limpiarTabla ?s2)"
       "contadorFilas (limpiarArticulosSolicitud st) = contadorFilas (limpiarTabla ?s2)"
    by (simp_all add: limpiarArticulosSolicitud_def Let_def split: option.splits)
  with l show ?thesis using orden_por_tabla by blast
qed

lemma limpiarArticulosSolicitud_casos:
  "avanza st (limpiarArticulosSolicitud st) \<or>
   (contadorFilas (limpiarArticulosSolicitud st) = 0 \<and>
    ids_tabla (limpiarArticulosSolicitud st) = [])"
  by (cases "cuerpo st")
     (auto simp: limpiarArticulosSolicitud_def Let_def limpiarTabla_def fila_vacia_def
                 ids_tabla_def avanza_def list_all_iff split: option.splits)

subsubsection \<open>Events\<close>

lemma orden_ejecutar:
  "ids_en_orden st \<Longrightarrow> lineas_son_objetos a \<Longrightarrow> ids_en_orden (ejecutar a st)"
  by (cases a)
     (simp_all add: orden_agregarArticulo orden_eliminarFila orden_cargarArticulosSolicitud
                    orden_limpiarArticulosSolicitud)

lemma orden_fold_ejecutar:
  "ids_en_orden st \<Longrightarrow> list_all lineas_son_objetos acciones \<Longrightarrow>
     ids_en_orden (fold ejecutar acciones st)"
  by (induction acciones arbitrary: st) (simp_all add: orden_ejecutar)

lemma ejecutar_casos:
  "avanza st (ejecutar a st) \<or>
   (contadorFilas (ejecutar a st) = 0 \<and> ids_tabla (ejecutar a st) = [])"
  by (cases a)
     (simp_all add: avanza_agregarArticulo eliminarFila_casos avanza_cargarArticulosSolicitud
                    limpiarArticulosSolicitud_casos)

lemma nuevos_ejecutar:
  assumes "n \<in> set (ids_tabla (ejecutar a st))"
  shows "n \<in> set (ids_tabla st) \<or> contadorFilas st \<le> n"
  using ejecutar_casos [of st a] assms avanza_ids by fastforce

lemma orden_consecuencias:
  assumes "ids_en_orden st"
  shows "sorted_wrt (<) (ids_tabla st)" and "distinct (ids_tabla st)"
    and "\<forall>n\<in>set (ids_tabla st). n < contadorFilas st"
proof -
  from assms show s: "sorted_wrt (<) (ids_tabla st)"
    and "\<forall>n\<in>set (ids_tabla st). n < contadorFilas st"
    by (auto simp: ids_en_orden_def sorted_wrt_append)
  from s show "distinct (ids_tabla st)" using strict_sorted_iff by blast
qed

text \<open>Along events that do not lower the counter, the ids given to new rows increase.\<close>

lemma asignados_crecientes:
  assumes "ids_en_orden st" and "list_all lineas_son_objetos tramo" and "sin_reinicio tramo st"
  shows "sorted_wrt (<) (ids_asignados tramo st) \<and>
         (\<forall>n\<in>set (ids_asignados tramo st).
            contadorFilas st \<le> n \<and> n < contadorFilas (fold ejecutar tramo st)) \<and>
         contadorFilas st \<le> contadorFilas (fold ejecutar tramo st)"
  using assms
proof (induction tramo arbitrary: st)
  case Nil
  then show ?case by simp
next
  case (Cons a tramo)
  let ?s = "ejecutar a st"
  let ?nuevos = "filter (\<lambda>n. n \<notin> set (ids_tabla st)) (ids_tabla ?s)"
  from Cons.prems have o: "ids_en_orden ?s" by (simp add: orden_ejecutar)
  from Cons.prems have c: "contadorFilas st \<le> contadorFilas ?s" by simp
  from Cons.prems have "list_all lineas_son_objetos tramo" "sin_reinicio tramo ?s" by simp_all
  from Cons.IH [OF o this] have
    ih1: "sorted_wrt (<) (ids_asignados tramo ?s)"
    and ih2: "\<forall>n\<in>set (ids_asignados tramo ?s).
                contadorFilas ?s \<le> n \<and> n < contadorFilas (fold ejecutar tramo ?s)"
    and ih3: "contadorFilas ?s \<le> contadorFilas (fold ejecutar tramo ?s)"
    by blast+
  have s: "sorted_wrt (<) ?nuevos"
    using orden_consecuencias(1) [OF o] by (rule sorted_wrt_filter)
  have b: "contadorFilas st \<le> n \<and> n < contadorFilas ?s" if "n \<in> set ?nuevos" for n
    using that nuevos_ejecutar [of n a st] orden_consecuencias(3) [OF o] by auto
  have "sorted_wrt (<) (?nuevos @ ids_asignados tramo ?s)"
    using s ih1 b ih2 by (fastforce simp: sorted_wrt_append)
  moreover have "\<forall>n\<in>set (?nuevos @ ids_asignados tramo ?s).
                   contadorFilas st \<le> n \<and> n < contadorFilas (fold ejecutar tramo ?s)"
    using b ih2 ih3 c by fastforce
  moreover have "contadorFilas st \<le> contadorFilas (fold ejecutar tramo ?s)"
    using c ih3 by simp
  ultimately show ?case by simp
qed

text \<open>
  C3, the claim as stated fails: adding a row, removing it and adding a row again hands
  out the id 0 twice, since \<open>limpiarTabla\<close> puts the counter back to 0 when the last row
  is removed.
\<close>

theorem ids_reutilizados_counterexample:
  "ids_asignados [ClicAgregar, ClicEliminar 0, ClicAgregar] pagina_inicial = [0, 0] \<and>
   \<not> distinct (ids_asignados [ClicAgregar, ClicEliminar 0, ClicAgregar] pagina_inicial) \<and>
   contadorFilas (eliminarFila 0 (agregarArticulo pagina_inicial)) = 0"
  by code_simp

text \<open>
  A response with a line that is \<open>null\<close> is left out of the amended claim: the exception
  leaves a row whose id is the counter, and the next row added gets the same id.
\<close>

lemma linea_nula_duplica_id:
  "ids_tabla (ejecutar ClicAgregar
      (ejecutar (SeleccionarSolicitud
                   (Cumplida (respuesta_ejemplo [Some (linea_ejemplo 4 5 5 77), None])))
         pagina_inicial)) = [0, 1, 1] \<and>
   \<not> lineas_son_objetos
        (SeleccionarSolicitud
           (Cumplida (respuesta_ejemplo [Some (linea_ejemplo 4 5 5 77), None])))"
  by code_simp

text \<open>
  C3, amended. Start from a page whose row ids are in order (as on the page first shown)
  and take any events whose responses hold objects as lines. At every moment the ids of
  the rows in the table are natural numbers, pairwise different and below the counter.
  The counter never goes down except to 0, and then the table holds no row
  (\<open>limpiarTabla\<close>). Over any stretch of events in which the counter does not go down,
  the ids handed out are strictly increasing, each at least the counter at the start of
  the stretch and greater than the id of every row then in the table: between two
  emptyings of the table no id is handed out twice. A row that an event adds always gets
  an id that is at least the counter.
\<close>

theorem ids_de_fila_crecientes:
  assumes "ids_en_orden st"
    and "list_all lineas_son_objetos antes"
    and "list_all lineas_son_objetos tramo"
    and "sin_reinicio tramo (fold ejecutar antes st)"
  shows "ids_en_orden (fold ejecutar antes st) \<and>
         distinct (ids_tabla (fold ejecutar antes st)) \<and>
         (\<forall>n\<in>set (ids_tabla (fold ejecutar antes st)).
             n < contadorFilas (fold ejecutar antes st)) \<and>
         sorted_wrt (<) (ids_asignados tramo (fold ejecutar antes st)) \<and>
         (\<forall>n\<in>set (ids_asignados tramo (fold ejecutar antes st)).
             contadorFilas (fold ejecutar antes st) \<le> n \<and>
             n < contadorFilas (fold ejecutar tramo (fold ejecutar antes st)) \<and>
             (\<forall>m\<in>set (ids_tabla (fold ejecutar antes st)). m < n)) \<and>
         (contadorFilas (fold ejecutar antes st)
            \<le> contadorFilas (ejecutar a (fold ejecutar antes st)) \<or>
          (contadorFilas (ejecutar a (fold ejecutar antes st)) = 0 \<and>
           ids_tabla (ejecutar a (fold ejecutar antes st)) = [])) \<and>
         (\<forall>n\<in>set (ids_tabla (ejecutar a (fold ejecutar antes st))).
             n \<in> set (ids_tabla (fold ejecutar antes st)) \<or>
             (contadorFilas (fold ejecutar antes st) \<le> n \<and>
              (\<forall>m\<in>set (ids_tabla (fold ejecutar antes st)). m < n)))"
proof -
  let ?st = "fold ejecutar antes st"
  have o: "ids_en_orden ?st" using assms(1,2) by (rule orden_fold_ejecutar)
  note d = orden_consecuencias [OF o]
  note c = asignados_crecientes [OF o assms(3,4)]
  have t: "\<forall>n\<in>set (ids_asignados tramo ?st).
             contadorFilas ?st \<le> n \<and> n < contadorFilas (fold ejecutar tramo ?st) \<and>
             (\<forall>m\<in>set (ids_tabla ?st). m < n)"
    using c d(3) by fastforce
  have r: "contadorFilas ?st \<le> contadorFilas (ejecutar a ?st) \<or>
           (contadorFilas (ejecutar a ?st) = 0 \<and> ids_tabla (ejecutar a ?st) = [])"
    using ejecutar_casos [of ?st a] by (auto simp: avanza_def)
  have n: "\<forall>n\<in>set (ids_tabla (ejecutar a ?st)).
             n \<in> set (ids_tabla ?st) \<or>
             (contadorFilas ?st \<le> n \<and> (\<forall>m\<in>set (ids_tabla ?st). m < n))"
    using nuevos_ejecutar [of _ a ?st] d(3) by fastforce
  from c have s: "sorted_wrt (<) (ids_asignados tramo ?st)" by blast
  from o d(2) d(3) s t r n show ?thesis by (intro conjI)
qed

theorem ids_de_fila_crecientes_witness:
  "ids_en_orden pagina_inicial \<and>
   list_all lineas_son_objetos [ClicAgregar, ClicEliminar 0] \<and>
   list_all lineas_son_objetos
     [ClicAgregar, ClicAgregar, ClicEliminar 0, ClicAgregar,
      SeleccionarSolicitud
        (Cumplida (respuesta_ejemplo [Some (linea_ejemplo 4 5 5 77),
                                      Some (linea_ejemplo 6 2 1 78)]))] \<and>
   sin_reinicio
     [ClicAgregar, ClicAgregar, ClicEliminar 0, ClicAgregar,
      SeleccionarSolicitud
        (Cumplida (respuesta_ejemplo [Some (linea_ejemplo 4 5 5 77),
                                      Some (linea_ejemplo 6 2 1 78)]))]
     (fold ejecutar [ClicAgregar, ClicEliminar 0] pagina_inicial) \<and>
   ids_asignados
     [ClicAgregar, ClicAgregar, ClicEliminar 0, ClicAgregar,
      SeleccionarSolicitud
        (Cumplida (respuesta_ejemplo [Some (linea_ejemplo 4 5 5 77),
                                      Some (linea_ejemplo 6 2 1 78)]))]
     (fold ejecutar [ClicAgregar, ClicEliminar 0] pagina_inicial) = [0, 1, 2, 3, 4] \<and>
   sorted_wrt (<)
     (ids_asignados
        [ClicAgregar, ClicAgregar, ClicEliminar 0, ClicAgregar,
         SeleccionarSolicitud
           (Cumplida (respuesta_ejemplo [Some (linea_ejemplo 4 5 5 77),
                                         Some (linea_ejemplo 6 2 1 78)]))]
        (fold ejecutar [ClicAgregar, ClicEliminar 0] pagina_inicial)) \<and>
   ids_en_orden (fold ejecutar [ClicAgregar, ClicEliminar 0] pagina_inicial)"
proof -
  let ?antes = "[ClicAgregar, ClicEliminar 0]"
  let ?tramo = "[ClicAgregar, ClicAgregar, ClicEliminar 0, ClicAgregar,
      SeleccionarSolicitud
        (Cumplida (respuesta_ejemplo [Some (linea_ejemplo 4 5 5 77),
                                      Some (linea_ejemplo 6 2 1 78)]))]"
  have h1: "ids_en_orden pagina_inicial" by code_simp
  have h2: "list_all lineas_son_objetos ?antes" by code_simp
  have h3: "list_all lineas_son_objetos ?tramo" by code_simp
  have h4: "sin_reinicio ?tramo (fold ejecutar ?antes pagina_inicial)" by code_simp
  have e: "ids_asignados ?tramo (fold ejecutar ?antes pagina_inicial) = [0, 1, 2, 3, 4]"
    by code_simp
  note t = ids_de_fila_crecientes [OF h1 h2 h3 h4, of ClicAgregar]
  have o: "ids_en_orden (fold ejecutar ?antes pagina_inicial)"
    by (rule t [THEN conjunct1])
  have s: "sorted_wrt (<) (ids_asignados ?tramo (fold ejecutar ?antes pagina_inicial))"
    by (rule t [THEN conjunct2, THEN conjunct2, THEN conjunct2, THEN conjunct1])
  from h1 h2 h3 h4 e s o show ?thesis by (intro conjI)
qed

subsection \<open>The loop over the rows\<close>

lemma construirDetalle_no_continua: "construirDetalle a d c l \<noteq> Continuar"
  by (auto simp: construirDetalle_def Let_def split: option.splits)

lemma procesarFila_Continuar:
  "procesarFila m tb i = Continuar \<longleftrightarrow> \<not> fila_completa m tb i"
  by (auto simp: procesarFila_def fila_completa_def Let_def construirDetalle_no_continua
           split: option.splits validacion.splits)

lemma recorrer_filter:
  assumes "\<And>i. \<not> P i \<Longrightarrow> f i = Continuar"
  shows "recorrer f is acc = recorrer f (filter P is) acc"
  using assms by (induction "is" arbitrary: acc) (auto split: paso.splits)

lemma recorrer_Completo:
  assumes "recorrer f is acc = Completo ds"
  shows "\<exists>nuevos. ds = acc @ nuevos \<and>
           map f (filter (\<lambda>i. f i \<noteq> Continuar) is) = map Agregar nuevos"
  using assms
proof (induction "is" arbitrary: acc)
  case Nil
  then show ?case by simp
next
  case (Cons i "is")
  show ?case
  proof (cases "f i")
    case Continuar
    with Cons show ?thesis by simp
  next
    case (Agregar d)
    with Cons.prems have "recorrer f is (acc @ [d]) = Completo ds" by simp
    from Cons.IH [OF this] obtain nuevos where
      "ds = (acc @ [d]) @ nuevos"
      "map f (filter (\<lambda>i. f i \<noteq> Continuar) is) = map Agregar nuevos"
      by blast
    with Agregar show ?thesis by (intro exI [of _ "d # nuevos"]) simp
  next
    case (Rechazar a)
    with Cons.prems show ?thesis by simp
  next
    case Excepcion
    with Cons.prems show ?thesis by simp
  qed
qed

lemma recorrer_origen:
  assumes "recorrer f is [] = Completo ds" and "d \<in> set ds"
  shows "\<exists>i \<in> set is. f i = Agregar d"
proof -
  from recorrer_Completo [OF assms(1)]
  have m: "map f (filter (\<lambda>i. f i \<noteq> Continuar) is) = map Agregar ds" by simp
  from assms(2) have "Agregar d \<in> set (map Agregar ds)" by simp
  with m have "Agregar d \<in> set (map f (filter (\<lambda>i. f i \<noteq> Continuar) is))" by simp
  then show ?thesis by auto
qed

lemma validarYEnviarFormulario_casos:
  "validarYEnviarFormulario st = (st', r) \<Longrightarrow>
     (r = Devuelve False \<and> (\<exists>a. st' = alert a st)) \<or>
     (r = TypeError \<and> st' = st) \<or>
     (r = Devuelve True \<and> (\<exists>tb ds. cuerpo st = Some tb \<and>
         recorrer (procesarFila (esSolicitud st) tb) [0..<contadorFilas st] [] = Completo ds \<and>
         st' = guardarYEnviar ds st))"
  by (auto simp: validarYEnviarFormulario_def
           split: option.splits list.splits if_splits recorrido.splits)

lemma validarYEnviarFormulario_bienes_casos:
  "validarYEnviarFormulario_bienes st = (st', r) \<Longrightarrow>
     (r = Devuelve False \<and> (\<exists>a. st' = alert a st)) \<or>
     (r = TypeError \<and> st' = st) \<or>
     (r = Devuelve True \<and> (\<exists>tb ds. cuerpo st = Some tb \<and>
         recorrer (procesarFila_bienes tb) [0..<contadorFilas st] [] = Completo ds \<and>
         st' = guardarYEnviar ds st))"
  by (auto simp: validarYEnviarFormulario_bienes_def
           split: option.splits list.splits if_splits recorrido.splits)

lemma valor_o_null_forma: "valor_o_null e = JNull \<or> (\<exists>s. valor_o_null e = JCadena s)"
  by (auto simp: valor_o_null_def split: option.splits)

lemma construirDetalle_forma:
  assumes "construirDetalle a dsid c l = Agregar d"
  shows "\<exists>q v. (v = JNull \<or> (\<exists>s. v = JCadena s)) \<and>
           (d = [(''articulo_id'', JNumero a), (''cantidad'', JNumero q), (''lote'', v)] \<or>
            (\<exists>n. dsid = Some n \<and>
               d = [(''articulo_id'', JNumero a), (''cantidad'', JNumero q), (''lote'', v),
                    (''detalle_solicitud_id'', JNumero n)]))"
  using assms valor_o_null_forma [of l]
  by (auto simp: construirDetalle_def Let_def split: if_splits option.splits)

lemma procesarFila_forma:
  assumes "procesarFila m tb i = Agregar d"
  shows "\<exists>a q v. (v = JNull \<or> (\<exists>s. v = JCadena s)) \<and>
           (d = [(''articulo_id'', JNumero a), (''cantidad'', JNumero q), (''lote'', v)] \<or>
            (m \<and> (\<exists>n.
               d = [(''articulo_id'', JNumero a), (''cantidad'', JNumero q), (''lote'', v),
                    (''detalle_solicitud_id'', JNumero n)])))"
proof -
  from assms obtain a dsid c l where c: "construirDetalle a dsid c l = Agregar d"
    and m: "dsid \<noteq> None \<longrightarrow> m"
    by (auto simp: procesarFila_def Let_def split: option.splits validacion.splits if_splits)
  from construirDetalle_forma [OF c] m show ?thesis by blast
qed

subsection \<open>The serialized records\<close>

lemma numeros_del_ejemplo:
  "parseFloat ''3'' = Fin 3" "parseFloat ''1'' = Fin 1"
  "parseInt ''5'' = Fin 5" "parseInt ''9'' = Fin 9"
  by code_simp+

lemma texto_del_ejemplo:
  "JSON_stringify
     [[(''articulo_id'', JNumero (Fin 5)), (''cantidad'', JNumero (Fin 3)),
       (''lote'', JCadena ''L1'')],
      [(''articulo_id'', JNumero (Fin 9)), (''cantidad'', JNumero (Fin 1)), (''lote'', JNull)]]
   = ''[{'' @ comillas ''articulo_id'' @ '':5,'' @ comillas ''cantidad'' @ '':3,'' @
       comillas ''lote'' @ '':'' @ comillas ''L1'' @ ''},{'' @
       comillas ''articulo_id'' @ '':9,'' @ comillas ''cantidad'' @ '':1,'' @
       comillas ''lote'' @ '':null}]''"
  by code_simp

lemma indices_0_2: "[0..<2] = [0, Suc 0]"
  by code_simp

text \<open>
  C5: two manual rows, article 5 with quantity 3 and lot \<open>L1\<close>, article 9 with quantity 1
  and no lot, each within the stock of its article. The records pushed are two, in the
  order of the rows, with the quantities as the numbers 3 and 1 and the lots as the string
  \<open>L1\<close> and \<open>null\<close>; the hidden field receives the JSON text of exactly these records
  and the form is submitted.
\<close>

theorem serializacion_dos_filas:
  assumes "esSolicitud st = False"
    and "contadorFilas st = 2"
    and "cuerpo st = Some [fila_manual 0 ''5'' s1 ''3'' ''L1'', fila_manual 1 ''9'' s2 ''1'' []]"
    and "\<not> mayor (Fin 3) (parseFloat_atributo s1)"
    and "\<not> mayor (Fin 1) (parseFloat_atributo s2)"
    and "detallesJson st = Some anterior"
  shows
    "recorrer
       (procesarFila False [fila_manual 0 ''5'' s1 ''3'' ''L1'', fila_manual 1 ''9'' s2 ''1'' []])
       [0..<2] []
     = Completo
         [[(''articulo_id'', JNumero (Fin 5)), (''cantidad'', JNumero (Fin 3)),
           (''lote'', JCadena ''L1'')],
          [(''articulo_id'', JNumero (Fin 9)), (''cantidad'', JNumero (Fin 1)),
           (''lote'', JNull)]] \<and>
     validarYEnviarFormulario st
     = (st\<lparr>detallesJson := Some
              (''[{'' @ comillas ''articulo_id'' @ '':5,'' @ comillas ''cantidad'' @ '':3,'' @
               comillas ''lote'' @ '':'' @ comillas ''L1'' @ ''},{'' @
               comillas ''articulo_id'' @ '':9,'' @ comillas ''cantidad'' @ '':1,'' @
               comillas ''lote'' @ '':null}]''),
            enviados := enviados st + 1\<rparr>,
        Devuelve True)"
proof -
  let ?tb = "[fila_manual 0 ''5'' s1 ''3'' ''L1'', fila_manual (Suc 0) ''9'' s2 ''1'' []]"
  have p0: "procesarFila False ?tb 0 =
              Agregar [(''articulo_id'', JNumero (Fin 5)), (''cantidad'', JNumero (Fin 3)),
                       (''lote'', JCadena ''L1'')]"
    using assms(4)
    by (simp add: procesarFila_def getFila_def getElemento_def fila_manual_def
                  validarStockDisponible_def construirDetalle_def valor_o_null_def Let_def
                  numeros_del_ejemplo)
  have p1: "procesarFila False ?tb (Suc 0) =
              Agregar [(''articulo_id'', JNumero (Fin 9)), (''cantidad'', JNumero (Fin 1)),
                       (''lote'', JNull)]"
    using assms(5)
    by (simp add: procesarFila_def getFila_def getElemento_def fila_manual_def
                  validarStockDisponible_def construirDetalle_def valor_o_null_def Let_def
                  numeros_del_ejemplo)
  have r: "recorrer (procesarFila False ?tb) [0..<2] [] =
             Completo [[(''articulo_id'', JNumero (Fin 5)), (''cantidad'', JNumero (Fin 3)),
                        (''lote'', JCadena ''L1'')],
                       [(''articulo_id'', JNumero (Fin 9)), (''cantidad'', JNumero (Fin 1)),
                        (''lote'', JNull)]]"
    by (simp add: indices_0_2 p0 p1)
  have c: "celdas (fila_manual 0 ''5'' s1 ''3'' ''L1'') \<noteq> 1"
    by (simp add: fila_manual_def)
  from assms(1,2,3,6) r c show ?thesis
    by (simp add: validarYEnviarFormulario_def guardarYEnviar_def texto_del_ejemplo)
qed

theorem serializacion_dos_filas_witness:
  "esSolicitud
     (pagina_manual [fila_manual 0 ''5'' (Some ''20'') ''3'' ''L1'',
                     fila_manual 1 ''9'' (Some ''1'') ''1'' []] 2) = False \<and>
   \<not> mayor (Fin 3) (parseFloat_atributo (Some ''20'')) \<and>
   \<not> mayor (Fin 1) (parseFloat_atributo (Some ''1'')) \<and>
   validarYEnviarFormulario
     (pagina_manual [fila_manual 0 ''5'' (Some ''20'') ''3'' ''L1'',
                     fila_manual 1 ''9'' (Some ''1'') ''1'' []] 2)
   = ((pagina_manual [fila_manual 0 ''5'' (Some ''20'') ''3'' ''L1'',
                      fila_manual 1 ''9'' (Some ''1'') ''1'' []] 2)
        \<lparr>detallesJson := Some
           (''[{'' @ comillas ''articulo_id'' @ '':5,'' @ comillas ''cantidad'' @ '':3,'' @
            comillas ''lote'' @ '':'' @ comillas ''L1'' @ ''},{'' @
            comillas ''articulo_id'' @ '':9,'' @ comillas ''cantidad'' @ '':1,'' @
            comillas ''lote'' @ '':null}]''),
         enviados := 1\<rparr>,
      Devuelve True)"
proof -
  let ?st = "pagina_manual [fila_manual 0 ''5'' (Some ''20'') ''3'' ''L1'',
                            fila_manual 1 ''9'' (Some ''1'') ''1'' []] 2"
  have h1: "esSolicitud ?st = False"
    by (simp add: pagina_manual_def pagina_inicial_def)
  have h2: "contadorFilas ?st = 2"
    by (simp add: pagina_manual_def pagina_inicial_def)
  have h3: "cuerpo ?st = Some [fila_manual 0 ''5'' (Some ''20'') ''3'' ''L1'',
                              fila_manual 1 ''9'' (Some ''1'') ''1'' []]"
    by (simp add: pagina_manual_def pagina_inicial_def)
  have h4: "\<not> mayor (Fin 3) (parseFloat_atributo (Some ''20''))" by code_simp
  have h5: "\<not> mayor (Fin 1) (parseFloat_atributo (Some ''1''))" by code_simp
  have h6: "detallesJson ?st = Some []"
    by (simp add: pagina_manual_def pagina_inicial_def)
  have e: "enviados ?st = 0"
    by (simp add: pagina_manual_def pagina_inicial_def)
  from serializacion_dos_filas [OF h1 h2 h3 h4 h5 h6] h1 h4 h5 e show ?thesis by simp
qed

text \<open>
  C6: when the item-delivery form is submitted, every record written to the hidden field
  has the properties \<open>articulo_id\<close> and \<open>cantidad\<close>, both numbers, and \<open>lote\<close>, a
  string or \<open>null\<close>, in this order, followed by \<open>detalle_solicitud_id\<close> only when a
  request is selected; without a selected request no record has that property.
\<close>

theorem detalle_solicitud_id_solo_con_solicitud:
  assumes "validarYEnviarFormulario st = (st', Devuelve True)"
  shows "\<exists>ds. st' = guardarYEnviar ds st \<and>
           (\<forall>d\<in>set ds. \<exists>a q v. (v = JNull \<or> (\<exists>s. v = JCadena s)) \<and>
              (d = [(''articulo_id'', JNumero a), (''cantidad'', JNumero q), (''lote'', v)] \<or>
               (esSolicitud st \<and>
                (\<exists>n. d = [(''articulo_id'', JNumero a), (''cantidad'', JNumero q),
                           (''lote'', v), (''detalle_solicitud_id'', JNumero n)])))) \<and>
           (\<not> esSolicitud st \<longrightarrow>
              (\<forall>d\<in>set ds. ''detalle_solicitud_id'' \<notin> fst ` set d))"
proof -
  from validarYEnviarFormulario_casos [OF assms] obtain tb ds where
    r: "recorrer (procesarFila (esSolicitud st) tb) [0..<contadorFilas st] [] = Completo ds"
    and g: "st' = guardarYEnviar ds st"
    by auto
  have f: "\<exists>a q v. (v = JNull \<or> (\<exists>s. v = JCadena s)) \<and>
              (d = [(''articulo_id'', JNumero a), (''cantidad'', JNumero q), (''lote'', v)] \<or>
               (esSolicitud st \<and>
                (\<exists>n. d = [(''articulo_id'', JNumero a), (''cantidad'', JNumero q),
                           (''lote'', v), (''detalle_solicitud_id'', JNumero n)])))"
    if "d \<in> set ds" for d
  proof -
    from recorrer_origen [OF r that] obtain i where
      "procesarFila (esSolicitud st) tb i = Agregar d" by blast
    then show ?thesis by (rule procesarFila_forma)
  qed
  have "''detalle_solicitud_id'' \<notin> fst ` set d" if "d \<in> set ds" "\<not> esSolicitud st" for d
    using f [OF that(1)] that(2) by auto
  with f g show ?thesis by blast
qed

lemma existe_primero: "\<exists>x. P x \<and> Q x \<Longrightarrow> \<exists>x. P x"
  by blast

lemma envio_de_solicitud:
  "validarYEnviarFormulario (pagina_solicitud [fila_de_solicitud 0 ''4'' ''77'' ''5'' ''5'' ''5''] 1)
   = (guardarYEnviar
        [[(''articulo_id'', JNumero (Fin 4)), (''cantidad'', JNumero (Fin 5)), (''lote'', JNull),
          (''detalle_solicitud_id'', JNumero (Fin 77))]]
        (pagina_solicitud [fila_de_solicitud 0 ''4'' ''77'' ''5'' ''5'' ''5''] 1),
      Devuelve True)"
  by code_simp

theorem detalle_solicitud_id_solo_con_solicitud_witness:
  "validarYEnviarFormulario (pagina_solicitud [fila_de_solicitud 0 ''4'' ''77'' ''5'' ''5'' ''5''] 1)
   = (guardarYEnviar
        [[(''articulo_id'', JNumero (Fin 4)), (''cantidad'', JNumero (Fin 5)), (''lote'', JNull),
          (''detalle_solicitud_id'', JNumero (Fin 77))]]
        (pagina_solicitud [fila_de_solicitud 0 ''4'' ''77'' ''5'' ''5'' ''5''] 1),
      Devuelve True) \<and>
   esSolicitud (pagina_solicitud [fila_de_solicitud 0 ''4'' ''77'' ''5'' ''5'' ''5''] 1) \<and>
   (\<exists>ds. guardarYEnviar
            [[(''articulo_id'', JNumero (Fin 4)), (''cantidad'', JNumero (Fin 5)),
              (''lote'', JNull), (''detalle_solicitud_id'', JNumero (Fin 77))]]
            (pagina_solicitud [fila_de_solicitud 0 ''4'' ''77'' ''5'' ''5'' ''5''] 1)
          = guardarYEnviar ds
              (pagina_solicitud [fila_de_solicitud 0 ''4'' ''77'' ''5'' ''5'' ''5''] 1))"
proof -
  have e: "esSolicitud (pagina_solicitud [fila_de_solicitud 0 ''4'' ''77'' ''5'' ''5'' ''5''] 1)"
    by (simp add: pagina_solicitud_def pagina_inicial_def)
  have g: "\<exists>ds. guardarYEnviar
       [[(''articulo_id'', JNumero (Fin 4)), (''cantidad'', JNumero (Fin 5)),
         (''lote'', JNull), (''detalle_solicitud_id'', JNumero (Fin 77))]]
       (pagina_solicitud [fila_de_solicitud 0 ''4'' ''77'' ''5'' ''5'' ''5''] 1)
     = guardarYEnviar ds
         (pagina_solicitud [fila_de_solicitud 0 ''4'' ''77'' ''5'' ''5'' ''5''] 1)"
    by (rule existe_primero [OF detalle_solicitud_id_solo_con_solicitud [OF envio_de_solicitud]])
  from envio_de_solicitud e g show ?thesis by (intro conjI)
qed

text \<open>
  C7: the goods form does not require an integer quantity of at least 1. A row with an
  asset chosen and the quantity \<open>.5\<close>, a value a number input can hold, passes: \<open>parseInt\<close>
  gives \<open>NaN\<close>, which is not \<open><= 0\<close>, and the record is written with the quantity
  \<open>null\<close>. The quantity \<open>0.5\<close> of the same row is rejected.
\<close>

theorem cantidad_NaN_aceptada_en_bienes:
  "validarYEnviarFormulario_bienes (pagina_bienes [fila_bien 0 ''3'' ''.5''] 1)
   = ((pagina_bienes [fila_bien 0 ''3'' ''.5''] 1)
        \<lparr>detallesJson := Some
           (''[{'' @ comillas ''equipo_id'' @ '':3,'' @ comillas ''cantidad'' @ '':null,'' @
            comillas ''numero_serie'' @ '':null,'' @ comillas ''estado_fisico'' @ '':null}]''),
         enviados := 1\<rparr>,
      Devuelve True) \<and>
   parseInt ''.5'' = NaN \<and> numero_valido ''.5'' \<and>
   validarYEnviarFormulario_bienes (pagina_bienes [fila_bien 0 ''3'' ''0.5''] 1)
   = (alert CantidadInvalida (pagina_bienes [fila_bien 0 ''3'' ''0.5''] 1), Devuelve False)"
  by code_simp

subsection \<open>Rows that are skipped\<close>

lemma recorrer_de_registros:
  "map f js = map Agregar ds \<Longrightarrow> recorrer f js acc = Completo (acc @ ds)"
proof (induction js arbitrary: ds acc)
  case Nil
  then show ?case by simp
next
  case (Cons j js)
  from Cons.prems obtain d ds' where d: "ds = d # ds'" "f j = Agregar d"
    and r: "map f js = map Agregar ds'"
    by (cases ds) auto
  from Cons.IH [OF r, of "acc @ [d]"] d show ?case by simp
qed

lemma guardarYEnviar_escrito:
  "guardarYEnviar ds st =
     st\<lparr>detallesJson := (case detallesJson st of
                            None \<Rightarrow> None
                          | Some v \<Rightarrow> Some (JSON_stringify ds)),
         enviados := enviados st + 1\<rparr>"
  by (cases "detallesJson st") (simp_all add: guardarYEnviar_def)

text \<open>
  C9: at the submit of the item-delivery form (a table that is not the empty state), a row
  index below the counter whose row or quantity input is missing, or, with a request
  selected, whose hidden article or request-line input is missing, is passed over without
  a message: the handler does exactly what the loop over the complete indices alone
  decides. It returns \<open>true\<close> precisely when every complete index yields a record, and
  then the hidden field \<open>detallesJson\<close> (when the page has it) holds the JSON text of
  exactly these records, in ascending order of the row ids, and the form is submitted
  once.
\<close>

theorem filas_incompletas_omitidas:
  assumes "cuerpo st = Some tbody" and "tbody \<noteq> []" and "celdas (hd tbody) \<noteq> 1"
  shows "(\<forall>i. \<not> fila_completa (esSolicitud st) tbody i \<longrightarrow>
              procesarFila (esSolicitud st) tbody i = Continuar) \<and>
         validarYEnviarFormulario st
           = (case recorrer (procesarFila (esSolicitud st) tbody)
                     (filter (fila_completa (esSolicitud st) tbody) [0..<contadorFilas st]) [] of
                Completo ds \<Rightarrow>
                  (st\<lparr>detallesJson := (case detallesJson st of
                                          None \<Rightarrow> None
                                        | Some v \<Rightarrow> Some (JSON_stringify ds)),
                       enviados := enviados st + 1\<rparr>,
                   Devuelve True)
              | Rechazado a \<Rightarrow> (alert a st, Devuelve False)
              | Interrumpido \<Rightarrow> (st, TypeError)) \<and>
         (\<forall>ds. map (procesarFila (esSolicitud st) tbody)
                  (filter (fila_completa (esSolicitud st) tbody) [0..<contadorFilas st])
                = map Agregar ds \<longrightarrow>
              validarYEnviarFormulario st
                = (st\<lparr>detallesJson := (case detallesJson st of
                                          None \<Rightarrow> None
                                        | Some v \<Rightarrow> Some (JSON_stringify ds)),
                       enviados := enviados st + 1\<rparr>,
                   Devuelve True)) \<and>
         (\<forall>st'. validarYEnviarFormulario st = (st', Devuelve True) \<longrightarrow>
            (\<exists>ds. map (procesarFila (esSolicitud st) tbody)
                     (filter (fila_completa (esSolicitud st) tbody) [0..<contadorFilas st])
                   = map Agregar ds \<and>
                  st' = st\<lparr>detallesJson := (case detallesJson st of
                                               None \<Rightarrow> None
                                             | Some v \<Rightarrow> Some (JSON_stringify ds)),
                            enviados := enviados st + 1\<rparr>))"
proof -
  let ?f = "procesarFila (esSolicitud st) tbody"
  let ?c = "fila_completa (esSolicitud st) tbody"
  let ?is = "filter ?c [0..<contadorFilas st]"
  let ?fin = "\<lambda>ds. st\<lparr>detallesJson := (case detallesJson st of
                                          None \<Rightarrow> None
                                        | Some v \<Rightarrow> Some (JSON_stringify ds)),
                       enviados := enviados st + 1\<rparr>"
  have a: "\<forall>i. \<not> ?c i \<longrightarrow> ?f i = Continuar"
    by (simp add: procesarFila_Continuar)
  have b: "recorrer ?f [0..<contadorFilas st] [] = recorrer ?f ?is []"
    by (rule recorrer_filter) (simp add: procesarFila_Continuar)
  from assms(2) obtain primera otras where t: "tbody = primera # otras"
    by (cases tbody) auto
  with assms(3) have p: "celdas primera \<noteq> 1" by simp
  have v: "validarYEnviarFormulario st
           = (case recorrer ?f ?is [] of
                Completo ds \<Rightarrow> (?fin ds, Devuelve True)
              | Rechazado a \<Rightarrow> (alert a st, Devuelve False)
              | Interrumpido \<Rightarrow> (st, TypeError))"
    using assms(1) t p b
    by (simp add: validarYEnviarFormulario_def guardarYEnviar_escrito split: recorrido.splits)
  have c: "validarYEnviarFormulario st = (?fin ds, Devuelve True)"
    if "map ?f ?is = map Agregar ds" for ds
    using recorrer_de_registros [OF that, of "[]"] v by simp
  have d: "\<exists>ds. map ?f ?is = map Agregar ds \<and> st' = ?fin ds"
    if "validarYEnviarFormulario st = (st', Devuelve True)" for st'
  proof -
    from that v obtain ds where r: "recorrer ?f ?is [] = Completo ds" and g: "st' = ?fin ds"
      by (auto split: recorrido.splits)
    from b r have "recorrer ?f [0..<contadorFilas st] [] = Completo ds" by simp
    from recorrer_Completo [OF this]
    have "map ?f (filter (\<lambda>i. ?f i \<noteq> Continuar) [0..<contadorFilas st]) = map Agregar ds"
      by simp
    moreover have "(\<lambda>i. ?f i \<noteq> Continuar) = ?c"
      by (simp add: procesarFila_Continuar)
    ultimately have "map ?f ?is = map Agregar ds" by simp
    with g show ?thesis by blast
  qed
  from a v c d show ?thesis by blast
qed

lemma registros_del_ejemplo:
  "map (procesarFila True
          [fila_de_solicitud 0 ''4'' ''77'' ''5'' ''5'' ''5'',
           fila_sin_cantidad 1 ''6'' ''78'',
           fila_de_solicitud 2 ''8'' ''79'' ''1'' ''3'' ''3''])
       (filter (fila_completa True
                  [fila_de_solicitud 0 ''4'' ''77'' ''5'' ''5'' ''5'',
                   fila_sin_cantidad 1 ''6'' ''78'',
                   fila_de_solicitud 2 ''8'' ''79'' ''1'' ''3'' ''3'']) [0..<3])
   = map Agregar
       [[(''articulo_id'', JNumero (Fin 4)), (''cantidad'', JNumero (Fin 5)), (''lote'', JNull),
         (''detalle_solicitud_id'', JNumero (Fin 77))],
        [(''articulo_id'', JNumero (Fin 8)), (''cantidad'', JNumero (Fin 1)), (''lote'', JNull),
         (''detalle_solicitud_id'', JNumero (Fin 79))]]"
  by code_simp

lemma texto_de_dos_registros:
  "JSON_stringify
     [[(''articulo_id'', JNumero (Fin 4)), (''cantidad'', JNumero (Fin 5)), (''lote'', JNull),
       (''detalle_solicitud_id'', JNumero (Fin 77))],
      [(''articulo_id'', JNumero (Fin 8)), (''cantidad'', JNumero (Fin 1)), (''lote'', JNull),
       (''detalle_solicitud_id'', JNumero (Fin 79))]]
   = ''[{'' @ comillas ''articulo_id'' @ '':4,'' @ comillas ''cantidad'' @ '':5,'' @
       comillas ''lote'' @ '':null,'' @ comillas ''detalle_solicitud_id'' @ '':77},{'' @
       comillas ''articulo_id'' @ '':8,'' @ comillas ''cantidad'' @ '':1,'' @
       comillas ''lote'' @ '':null,'' @ comillas ''detalle_solicitud_id'' @ '':79}]''"
  by code_simp

theorem filas_incompletas_omitidas_witness:
  "cuerpo (pagina_solicitud
      [fila_de_solicitud 0 ''4'' ''77'' ''5'' ''5'' ''5'',
       fila_sin_cantidad 1 ''6'' ''78'',
       fila_de_solicitud 2 ''8'' ''79'' ''1'' ''3'' ''3''] 3)
   = Some
      [fila_de_solicitud 0 ''4'' ''77'' ''5'' ''5'' ''5'',
       fila_sin_cantidad 1 ''6'' ''78'',
       fila_de_solicitud 2 ''8'' ''79'' ''1'' ''3'' ''3''] \<and>
   getFila [fila_de_solicitud 0 ''4'' ''77'' ''5'' ''5'' ''5'',
            fila_sin_cantidad 1 ''6'' ''78'',
            fila_de_solicitud 2 ''8'' ''79'' ''1'' ''3'' ''3''] 1
     = Some (fila_sin_cantidad 1 ''6'' ''78'') \<and>
   getElemento [fila_de_solicitud 0 ''4'' ''77'' ''5'' ''5'' ''5'',
                fila_sin_cantidad 1 ''6'' ''78'',
                fila_de_solicitud 2 ''8'' ''79'' ''1'' ''3'' ''3''] Cantidad 1 = None \<and>
   filter (fila_completa True
      [fila_de_solicitud 0 ''4'' ''77'' ''5'' ''5'' ''5'',
       fila_sin_cantidad 1 ''6'' ''78'',
       fila_de_solicitud 2 ''8'' ''79'' ''1'' ''3'' ''3'']) [0..<3] = [0, 2] \<and>
   validarYEnviarFormulario
     (pagina_solicitud
        [fila_de_solicitud 0 ''4'' ''77'' ''5'' ''5'' ''5'',
         fila_sin_cantidad 1 ''6'' ''78'',
         fila_de_solicitud 2 ''8'' ''79'' ''1'' ''3'' ''3''] 3)
   = ((pagina_solicitud
         [fila_de_solicitud 0 ''4'' ''77'' ''5'' ''5'' ''5'',
          fila_sin_cantidad 1 ''6'' ''78'',
          fila_de_solicitud 2 ''8'' ''79'' ''1'' ''3'' ''3''] 3)
        \<lparr>detallesJson := Some
           (''[{'' @ comillas ''articulo_id'' @ '':4,'' @ comillas ''cantidad'' @ '':5,'' @
            comillas ''lote'' @ '':null,'' @ comillas ''detalle_solicitud_id'' @ '':77},{'' @
            comillas ''articulo_id'' @ '':8,'' @ comillas ''cantidad'' @ '':1,'' @
            comillas ''lote'' @ '':null,'' @ comillas ''detalle_solicitud_id'' @ '':79}]''),
         enviados := 1\<rparr>,
      Devuelve True)"
proof -
  let ?tb = "[fila_de_solicitud 0 ''4'' ''77'' ''5'' ''5'' ''5'',
              fila_sin_cantidad 1 ''6'' ''78'',
              fila_de_solicitud 2 ''8'' ''79'' ''1'' ''3'' ''3'']"
  let ?st = "pagina_solicitud ?tb 3"
  let ?ds = "[[(''articulo_id'', JNumero (Fin 4)), (''cantidad'', JNumero (Fin 5)),
               (''lote'', JNull), (''detalle_solicitud_id'', JNumero (Fin 77))],
              [(''articulo_id'', JNumero (Fin 8)), (''cantidad'', JNumero (Fin 1)),
               (''lote'', JNull), (''detalle_solicitud_id'', JNumero (Fin 79))]]"
  have h1: "cuerpo ?st = Some ?tb"
    by (simp add: pagina_solicitud_def pagina_inicial_def)
  have h2: "?tb \<noteq> []" by simp
  have h3: "celdas (hd ?tb) \<noteq> 1" by (simp add: fila_de_solicitud_def)
  have m: "esSolicitud ?st = True" "contadorFilas ?st = 3" "detallesJson ?st = Some []"
    "enviados ?st = 0"
    by (simp_all add: pagina_solicitud_def pagina_inicial_def)
  have g: "getFila ?tb 1 = Some (fila_sin_cantidad 1 ''6'' ''78'')" by code_simp
  have q: "getElemento ?tb Cantidad 1 = None" by code_simp
  have f: "filter (fila_completa True ?tb) [0..<3] = [0, 2]" by code_simp
  note t = filas_incompletas_omitidas [OF h1 h2 h3]
  have r: "map (procesarFila (esSolicitud ?st) ?tb)
             (filter (fila_completa (esSolicitud ?st) ?tb) [0..<contadorFilas ?st])
           = map Agregar ?ds"
    by (simp only: m registros_del_ejemplo)
  have "validarYEnviarFormulario ?st
        = (?st\<lparr>detallesJson := (case detallesJson ?st of
                                   None \<Rightarrow> None
                                 | Some v \<Rightarrow> Some (JSON_stringify ?ds)),
                enviados := enviados ?st + 1\<rparr>,
           Devuelve True)"
    by (rule t [THEN conjunct2, THEN conjunct2, THEN conjunct1, rule_format, OF r])
  then have v: "validarYEnviarFormulario ?st
        = (?st\<lparr>detallesJson := Some (JSON_stringify ?ds), enviados := 1\<rparr>, Devuelve True)"
    by (simp only: m option.case add_0)
  from h1 g q f v [unfolded texto_de_dos_registros] show ?thesis by (intro conjI)
qed

subsection \<open>A failed validation submits nothing\<close>

text \<open>
  C10: on both forms, when the submit handler does not return \<open>true\<close> the hidden field
  \<open>detallesJson\<close> keeps its value and \<open>submit()\<close> is not called; when it returns
  \<open>false\<close> the only change is one message. It returns \<open>true\<close> only when the loop over
  the rows has run to its end without a rejection, and the state is then the one in which
  the records were written and the form submitted.
\<close>

theorem sin_envio_si_la_validacion_falla:
  "(snd (validarYEnviarFormulario st) \<noteq> Devuelve True \<longrightarrow>
      detallesJson (fst (validarYEnviarFormulario st)) = detallesJson st \<and>
      enviados (fst (validarYEnviarFormulario st)) = enviados st) \<and>
   (snd (validarYEnviarFormulario st) = Devuelve False \<longrightarrow>
      (\<exists>a. fst (validarYEnviarFormulario st) = alert a st)) \<and>
   (snd (validarYEnviarFormulario st) = Devuelve True \<longrightarrow>
      (\<exists>tb ds. cuerpo st = Some tb \<and>
         recorrer (procesarFila (esSolicitud st) tb) [0..<contadorFilas st] [] = Completo ds \<and>
         fst (validarYEnviarFormulario st) = guardarYEnviar ds st)) \<and>
   (snd (validarYEnviarFormulario_bienes sb) \<noteq> Devuelve True \<longrightarrow>
      detallesJson (fst (validarYEnviarFormulario_bienes sb)) = detallesJson sb \<and>
      enviados (fst (validarYEnviarFormulario_bienes sb)) = enviados sb) \<and>
   (snd (validarYEnviarFormulario_bienes sb) = Devuelve False \<longrightarrow>
      (\<exists>a. fst (validarYEnviarFormulario_bienes sb) = alert a sb)) \<and>
   (snd (validarYEnviarFormulario_bienes sb) = Devuelve True \<longrightarrow>
      (\<exists>tb ds. cuerpo sb = Some tb \<and>
         recorrer (procesarFila_bienes tb) [0..<contadorFilas sb] [] = Completo ds \<and>
         fst (validarYEnviarFormulario_bienes sb) = guardarYEnviar ds sb))"
proof -
  obtain st' r where v: "validarYEnviarFormulario st = (st', r)"
    by (cases "validarYEnviarFormulario st")
  obtain sb' rb where vb: "validarYEnviarFormulario_bienes sb = (sb', rb)"
    by (cases "validarYEnviarFormulario_bienes sb")
  from validarYEnviarFormulario_casos [OF v]
  have 1: "(r \<noteq> Devuelve True \<longrightarrow> detallesJson st' = detallesJson st \<and> enviados st' = enviados st)
           \<and> (r = Devuelve False \<longrightarrow> (\<exists>a. st' = alert a st))
           \<and> (r = Devuelve True \<longrightarrow>
                (\<exists>tb ds. cuerpo st = Some tb \<and>
                   recorrer (procesarFila (esSolicitud st) tb) [0..<contadorFilas st] []
                     = Completo ds \<and>
                   st' = guardarYEnviar ds st))"
    by (auto simp: alert_def)
  from validarYEnviarFormulario_bienes_casos [OF vb]
  have 2: "(rb \<noteq> Devuelve True \<longrightarrow> detallesJson sb' = detallesJson sb \<and> enviados sb' = enviados sb)
           \<and> (rb = Devuelve False \<longrightarrow> (\<exists>a. sb' = alert a sb))
           \<and> (rb = Devuelve True \<longrightarrow>
                (\<exists>tb ds. cuerpo sb = Some tb \<and>
                   recorrer (procesarFila_bienes tb) [0..<contadorFilas sb] [] = Completo ds \<and>
                   sb' = guardarYEnviar ds sb))"
    by (auto simp: alert_def)
  from 1 2 show ?thesis
    unfolding v vb fst_conv snd_conv by (elim conjE) (intro conjI; assumption)
qed

lemma rechazo_de_solicitud:
  "validarYEnviarFormulario (pagina_solicitud [fila_de_solicitud 0 ''4'' ''77'' ''8'' ''10'' ''7''] 1)
   = (alert (ExcedeStockSolicitud (Fin 8) (Fin 7))
        (pagina_solicitud [fila_de_solicitud 0 ''4'' ''77'' ''8'' ''10'' ''7''] 1),
      Devuelve False)"
  by code_simp

lemma rechazo_de_bien:
  "validarYEnviarFormulario_bienes (pagina_bienes [fila_bien 0 ''3'' ''0''] 1)
   = (alert CantidadInvalida (pagina_bienes [fila_bien 0 ''3'' ''0''] 1), Devuelve False)"
  by code_simp

theorem sin_envio_si_la_validacion_falla_witness:
  "snd (validarYEnviarFormulario
          (pagina_solicitud [fila_de_solicitud 0 ''4'' ''77'' ''8'' ''10'' ''7''] 1))
     = Devuelve False \<and>
   detallesJson (fst (validarYEnviarFormulario
          (pagina_solicitud [fila_de_solicitud 0 ''4'' ''77'' ''8'' ''10'' ''7''] 1)))
     = detallesJson (pagina_solicitud [fila_de_solicitud 0 ''4'' ''77'' ''8'' ''10'' ''7''] 1) \<and>
   enviados (fst (validarYEnviarFormulario
          (pagina_solicitud [fila_de_solicitud 0 ''4'' ''77'' ''8'' ''10'' ''7''] 1)))
     = enviados (pagina_solicitud [fila_de_solicitud 0 ''4'' ''77'' ''8'' ''10'' ''7''] 1) \<and>
   snd (validarYEnviarFormulario_bienes (pagina_bienes [fila_bien 0 ''3'' ''0''] 1))
     = Devuelve False \<and>
   detallesJson (fst (validarYEnviarFormulario_bienes (pagina_bienes [fila_bien 0 ''3'' ''0''] 1)))
     = detallesJson (pagina_bienes [fila_bien 0 ''3'' ''0''] 1) \<and>
   enviados (fst (validarYEnviarFormulario_bienes (pagina_bienes [fila_bien 0 ''3'' ''0''] 1)))
     = enviados (pagina_bienes [fila_bien 0 ''3'' ''0''] 1)"
proof -
  have a: "snd (validarYEnviarFormulario
             (pagina_solicitud [fila_de_solicitud 0 ''4'' ''77'' ''8'' ''10'' ''7''] 1))
           = Devuelve False"
    by (simp only: rechazo_de_solicitud snd_conv)
  have b: "snd (validarYEnviarFormulario_bienes (pagina_bienes [fila_bien 0 ''3'' ''0''] 1))
           = Devuelve False"
    by (simp only: rechazo_de_bien snd_conv)
  from sin_envio_si_la_validacion_falla
         [of "pagina_solicitud [fila_de_solicitud 0 ''4'' ''77'' ''8'' ''10'' ''7''] 1"
             "pagina_bienes [fila_bien 0 ''3'' ''0''] 1"] a b
  show ?thesis by simp
qed

end
